theory Spec2Isabelle
  imports Complex_Main "HOL-Library.AList"
begin

section \<open>Dynamic pricing engine: the statistical core of \<open>pricing_engine.py\<close>\<close>

text \<open>
  The engine computes with Python floats and numpy \<open>float64\<close> values. Where a value can
  only be finite (counts, Beta parameters, Beta samples in the unit interval, prices) it
  is a \<open>real\<close>: rounding, overflow and underflow are not modelled. Where the code
  produces or compares non-finite values (the \<open>-inf\<close> sentinel of the optimizer, the
  \<open>nan\<close> of a division of zero by zero) the value is a \<open>float64\<close> below: an exact real,
  one of the two infinities, or NaN, with the IEEE 754 rules for the special values
  (signed zeros are not modelled: zero counts as positive zero).

  Exceptions are values: every function that can raise returns \<open>error + 'a\<close>.
  Random draws, the system clock and the scipy routines are arguments of the functions
  that use them.
\<close>

datatype error = ZeroDivisionError | ValueError | KeyError | IndexError

subsection \<open>Floating-point values with infinities and NaN\<close>

datatype float64 = Fin real | PInf | NInf | NaN

fun fneg :: "float64 \<Rightarrow> float64" where
  "fneg (Fin a) = Fin (- a)"
| "fneg PInf = NInf"
| "fneg NInf = PInf"
| "fneg NaN = NaN"

fun fadd :: "float64 \<Rightarrow> float64 \<Rightarrow> float64" where
  "fadd NaN _ = NaN"
| "fadd _ NaN = NaN"
| "fadd (Fin a) (Fin b) = Fin (a + b)"
| "fadd PInf NInf = NaN"
| "fadd NInf PInf = NaN"
| "fadd PInf _ = PInf"
| "fadd NInf _ = NInf"
| "fadd (Fin a) PInf = PInf"
| "fadd (Fin a) NInf = NInf"

definition fsub :: "float64 \<Rightarrow> float64 \<Rightarrow> float64" where
  "fsub x y = fadd x (fneg y)"

text \<open>The infinity whose sign is that of the real \<open>s\<close> (zero counts as positive).\<close>

definition inf_signed :: "real \<Rightarrow> float64" where
  "inf_signed s = (if 0 \<le> s then PInf else NInf)"

fun fmul :: "float64 \<Rightarrow> float64 \<Rightarrow> float64" where
  "fmul NaN _ = NaN"
| "fmul _ NaN = NaN"
| "fmul (Fin a) (Fin b) = Fin (a * b)"
| "fmul (Fin a) PInf = (if a = 0 then NaN else inf_signed a)"
| "fmul (Fin a) NInf = (if a = 0 then NaN else fneg (inf_signed a))"
| "fmul PInf (Fin b) = (if b = 0 then NaN else inf_signed b)"
| "fmul NInf (Fin b) = (if b = 0 then NaN else fneg (inf_signed b))"
| "fmul PInf PInf = PInf"
| "fmul NInf NInf = PInf"
| "fmul PInf NInf = NInf"
| "fmul NInf PInf = NInf"

text \<open>
  Division as numpy performs it on \<open>float64\<close> operands: a zero divisor gives an infinity
  or NaN (with a warning that the module silences), never an exception.
\<close>

fun fdiv :: "float64 \<Rightarrow> float64 \<Rightarrow> float64" where
  "fdiv NaN _ = NaN"
| "fdiv _ NaN = NaN"
| "fdiv (Fin a) (Fin b) =
     (if b = 0 then (if a = 0 then NaN else inf_signed a) else Fin (a / b))"
| "fdiv (Fin a) PInf = Fin 0"
| "fdiv (Fin a) NInf = Fin 0"
| "fdiv PInf (Fin b) = inf_signed b"
| "fdiv NInf (Fin b) = fneg (inf_signed b)"
| "fdiv PInf _ = NaN"
| "fdiv NInf _ = NaN"

text \<open>The comparisons \<open><\<close> and \<open>>\<close>: false whenever an operand is NaN.\<close>

fun flt :: "float64 \<Rightarrow> float64 \<Rightarrow> bool" where
  "flt NaN _ = False"
| "flt _ NaN = False"
| "flt (Fin a) (Fin b) = (a < b)"
| "flt NInf NInf = False"
| "flt NInf _ = True"
| "flt _ NInf = False"
| "flt PInf _ = False"
| "flt (Fin a) PInf = True"

definition fgt :: "float64 \<Rightarrow> float64 \<Rightarrow> bool" where
  "fgt x y = flt y x"

definition fle :: "float64 \<Rightarrow> float64 \<Rightarrow> bool" where
  "fle x y = (x \<noteq> NaN \<and> y \<noteq> NaN \<and> \<not> flt y x)"

fun fsqrt :: "float64 \<Rightarrow> float64" where
  "fsqrt (Fin a) = (if a < 0 then NaN else Fin (sqrt a))"
| "fsqrt PInf = PInf"
| "fsqrt NInf = NaN"
| "fsqrt NaN = NaN"

text \<open>\<open>np.maximum\<close>: the larger operand, NaN as soon as one operand is NaN.\<close>

definition fmaximum :: "float64 \<Rightarrow> float64 \<Rightarrow> float64" where
  "fmaximum x y = (if x = NaN \<or> y = NaN then NaN else if flt x y then y else x)"

text \<open>
  \<open>**\<close> with a numpy operand (C \<open>pow\<close>): \<open>x ** 0 = 1\<close> and \<open>1 ** y = 1\<close> even for NaN;
  a negative base with a non-integer exponent gives NaN.
\<close>

fun fpow :: "float64 \<Rightarrow> float64 \<Rightarrow> float64" where
  "fpow x (Fin b) =
     (if b = 0 then Fin 1
      else case x of
        NaN \<Rightarrow> NaN
      | Fin a \<Rightarrow>
          (if 0 < a then Fin (a powr b)
           else if a = 0 then (if b < 0 then PInf else Fin 0)
           else if of_int \<lfloor>b\<rfloor> = b
             then (if even \<lfloor>b\<rfloor> then Fin ((- a) powr b) else Fin (- ((- a) powr b)))
           else NaN)
      | PInf \<Rightarrow> (if b < 0 then Fin 0 else PInf)
      | NInf \<Rightarrow> (if b < 0 then Fin 0
                 else if of_int \<lfloor>b\<rfloor> = b \<and> odd \<lfloor>b\<rfloor> then NInf else PInf))"
| "fpow x PInf =
     (case x of
        NaN \<Rightarrow> NaN
      | Fin a \<Rightarrow> (if \<bar>a\<bar> = 1 then Fin 1 else if \<bar>a\<bar> < 1 then Fin 0 else PInf)
      | PInf \<Rightarrow> PInf
      | NInf \<Rightarrow> PInf)"
| "fpow x NInf =
     (case x of
        NaN \<Rightarrow> NaN
      | Fin a \<Rightarrow> (if \<bar>a\<bar> = 1 then Fin 1 else if \<bar>a\<bar> < 1 then PInf else Fin 0)
      | PInf \<Rightarrow> Fin 0
      | NInf \<Rightarrow> Fin 0)"
| "fpow x NaN = (if x = Fin 1 then Fin 1 else NaN)"

subsection \<open>The numpy reductions used by the engine\<close>

definition np_sum :: "float64 list \<Rightarrow> float64" where
  "np_sum xs = foldl fadd (Fin 0) xs"

text \<open>\<open>np.mean\<close>: the sum over the length; NaN (zero by zero) on the empty array.\<close>

definition np_mean :: "float64 list \<Rightarrow> float64" where
  "np_mean xs = fdiv (np_sum xs) (Fin (real (length xs)))"

text \<open>\<open>np.std\<close>: the square root of the mean squared deviation from the mean.\<close>

definition np_std :: "float64 list \<Rightarrow> float64" where
  "np_std xs =
     (let arrmean = np_mean xs
      in fsqrt (np_mean (map (\<lambda>x. fmul (fsub x arrmean) (fsub x arrmean)) xs)))"

text \<open>\<open>np.max\<close>: raises \<open>ValueError\<close> on an empty array.\<close>

fun np_max :: "float64 list \<Rightarrow> error + float64" where
  "np_max [] = Inl ValueError"
| "np_max (x # xs) = Inr (foldl fmaximum x xs)"

text \<open>
  What \<open>acquisition_function\<close> returns: an array (\<open>np.zeros\<close>) or a zero-dimensional
  \<open>float64\<close> scalar.
\<close>

datatype ndarray = Array "float64 list" | Scalar float64

text \<open>
  \<open>np.argmax\<close>: the index of the first maximum, of the first NaN if there is one; the
  loop keeps the running maximum \<open>mp\<close> and replaces it when \<open>\<not> (x \<le> mp)\<close>. A scalar
  is a one-element array; an empty array raises \<open>ValueError\<close>.
\<close>

fun np_argmax_loop :: "float64 \<Rightarrow> nat \<Rightarrow> nat \<Rightarrow> float64 list \<Rightarrow> nat" where
  "np_argmax_loop mp ind i [] = ind"
| "np_argmax_loop mp ind i (x # xs) =
     (if mp = NaN then ind
      else if \<not> fle x mp then np_argmax_loop x i (Suc i) xs
      else np_argmax_loop mp ind (Suc i) xs)"

fun np_argmax :: "ndarray \<Rightarrow> error + nat" where
  "np_argmax (Scalar v) = Inr 0"
| "np_argmax (Array []) = Inl ValueError"
| "np_argmax (Array (x # xs)) = Inr (np_argmax_loop x 0 1 xs)"

subsection \<open>Python numbers and numpy scalars\<close>

text \<open>
  A Python \<open>float\<close> (or \<open>int\<close>) and a \<open>numpy.float64\<close> hold the same values but divide
  differently: \<open>/\<close> between two Python numbers raises \<open>ZeroDivisionError\<close> on a zero
  divisor; as soon as one operand is a numpy scalar the operation is numpy's, which
  returns an infinity or NaN, and the result is a numpy scalar.
\<close>

datatype pynum = Py float64 | Np float64

fun num_value :: "pynum \<Rightarrow> float64" where
  "num_value (Py x) = x"
| "num_value (Np x) = x"

fun add :: "pynum \<Rightarrow> pynum \<Rightarrow> pynum" where
  "add (Py x) (Py y) = Py (fadd x y)"
| "add x y = Np (fadd (num_value x) (num_value y))"

fun truediv :: "pynum \<Rightarrow> pynum \<Rightarrow> error + pynum" where
  "truediv (Py x) (Py y) = (if y = Fin 0 then Inl ZeroDivisionError else Inr (Py (fdiv x y)))"
| "truediv x y = Inr (Np (fdiv (num_value x) (num_value y)))"

text \<open>Python's built-in \<open>min\<close> and \<open>max\<close> of a list: \<open>ValueError\<close> on an empty one.\<close>

fun py_min :: "real list \<Rightarrow> error + real" where
  "py_min [] = Inl ValueError"
| "py_min (x # xs) = Inr (foldl (\<lambda>m y. if y < m then y else m) x xs)"

fun py_max :: "real list \<Rightarrow> error + real" where
  "py_max [] = Inl ValueError"
| "py_max (x # xs) = Inr (foldl (\<lambda>m y. if m < y then y else m) x xs)"

subsection \<open>GammaPoissonMixture\<close>

text \<open>
  The attributes \<open>self.alpha\<close>, \<open>self.beta\<close> and \<open>self.lambda_samples\<close> (the first two are
  named \<open>gp_alpha\<close> and \<open>gp_beta\<close> here; \<open>alpha\<close> and \<open>beta\<close> are the keys of a variant
  record below).
\<close>

record GammaPoissonMixture =
  gp_alpha :: pynum
  gp_beta :: pynum
  lambda_samples :: "float64 list"

text \<open>\<open>__init__\<close>: Python floats, \<open>alpha = 2.0\<close> and \<open>beta = 1.0\<close> by default.\<close>

definition GammaPoissonMixture_init :: "real \<Rightarrow> real \<Rightarrow> GammaPoissonMixture" where
  "GammaPoissonMixture_init a b = \<lparr>gp_alpha = Py (Fin a), gp_beta = Py (Fin b), lambda_samples = []\<rparr>"

text \<open>
  The loop of \<open>fit\<close> (lines 23-25), \<open>k\<close> iterations from the parameters \<open>(a, b)\<close>:
  \<open>alpha = (alpha + sum_purchases) / (1 + n / beta)\<close>, then
  \<open>beta = (beta + n) / (alpha + sum_purchases / n)\<close> with the new \<open>alpha\<close>.
\<close>

fun fit_iterations :: "pynum \<Rightarrow> pynum \<Rightarrow> nat \<Rightarrow> pynum \<times> pynum \<Rightarrow> error + pynum \<times> pynum" where
  "fit_iterations sum_purchases n 0 (a, b) = Inr (a, b)"
| "fit_iterations sum_purchases n (Suc k) (a, b) =
     (case truediv n b of
        Inl e \<Rightarrow> Inl e
      | Inr n_by_beta \<Rightarrow>
          (case truediv (add a sum_purchases) (add (Py (Fin 1)) n_by_beta) of
             Inl e \<Rightarrow> Inl e
           | Inr a' \<Rightarrow>
               (case truediv sum_purchases n of
                  Inl e \<Rightarrow> Inl e
                | Inr sum_by_n \<Rightarrow>
                    (case truediv (add b n) (add a' sum_by_n) of
                       Inl e \<Rightarrow> Inl e
                     | Inr b' \<Rightarrow> fit_iterations sum_purchases n k (a', b')))))"

text \<open>
  \<open>np.random.gamma(shape, scale, size)\<close>: raises \<open>ValueError\<close> on a negative shape or
  scale (NaN passes the check); the samples themselves come from the random stream
  \<open>draw\<close>.
\<close>

definition np_random_gamma ::
  "(float64 \<Rightarrow> float64 \<Rightarrow> nat \<Rightarrow> float64 list) \<Rightarrow> float64 \<Rightarrow> float64 \<Rightarrow> nat
     \<Rightarrow> error + float64 list" where
  "np_random_gamma draw shape scale n =
     (if flt shape (Fin 0) then Inl ValueError
      else if flt scale (Fin 0) then Inl ValueError
      else Inr (draw shape scale n))"

text \<open>
  \<open>np.sum\<close> of the array of counts. The counts are \<open>int64\<close> values and their sum wraps
  around in two's complement; the sum of the empty array is \<open>0.0\<close>.
\<close>

definition int64_wrap :: "int \<Rightarrow> int" where
  "int64_wrap x = (x + 2 ^ 63) mod 2 ^ 64 - 2 ^ 63"

text \<open>
  \<open>fit\<close> (lines 19-28). \<open>purchase_data\<close> is the array of purchase counts; \<open>np.sum\<close> of it is
  a numpy scalar, \<open>len\<close> of it a Python \<open>int\<close>. The loop assigns \<open>self.alpha\<close> and
  \<open>self.beta\<close> in every iteration, so the parameters \<open>fit_iterations\<close> returns are
  stored in the object before the samples are drawn.
\<close>

definition fit ::
  "(float64 \<Rightarrow> float64 \<Rightarrow> nat \<Rightarrow> float64 list) \<Rightarrow> GammaPoissonMixture \<Rightarrow> int list \<Rightarrow> nat
     \<Rightarrow> error + GammaPoissonMixture" where
  "fit draw self purchase_data n_iter =
     (let n = Py (Fin (real (length purchase_data)));
          sum_purchases = Np (Fin (of_int (int64_wrap (sum_list purchase_data))))
      in case fit_iterations sum_purchases n n_iter (gp_alpha self, gp_beta self) of
           Inl e \<Rightarrow> Inl e
         | Inr (a, b) \<Rightarrow>
             (case truediv (Py (Fin 1)) b of
                Inl e \<Rightarrow> Inl e
              | Inr scale \<Rightarrow>
                  (case np_random_gamma draw (num_value a) (num_value scale) 10000 of
                     Inl e \<Rightarrow> Inl e
                   | Inr samples \<Rightarrow>
                       Inr \<lparr>gp_alpha = a, gp_beta = b, lambda_samples = samples\<rparr>)))"

subsection \<open>PriceElasticityModel\<close>

text \<open>
  The two dictionaries of the model. \<open>calculate_elasticity\<close>, their only writer, stores
  numpy scalars (a \<open>polyfit\<close> coefficient and an \<open>np.mean\<close>).
\<close>

record PriceElasticityModel =
  elasticity_coefficients :: "string \<rightharpoonup> float64"
  base_demand :: "string \<rightharpoonup> float64"

text \<open>
  \<open>predict_demand\<close> (lines 62-72). The prices are Python floats in a direct call;
  \<open>get_optimal_price\<close> passes a numpy scalar as \<open>new_price\<close>.
\<close>

definition predict_demand ::
  "PriceElasticityModel \<Rightarrow> pynum \<Rightarrow> pynum \<Rightarrow> string \<Rightarrow> error + float64" where
  "predict_demand self cur_price new_price pid =
     (case elasticity_coefficients self pid of
        None \<Rightarrow> Inr (case base_demand self pid of Some d \<Rightarrow> d | None \<Rightarrow> Fin 0)
      | Some elasticity_coef \<Rightarrow>
          (case truediv new_price cur_price of
             Inl e \<Rightarrow> Inl e
           | Inr price_change_ratio \<Rightarrow>
               let demand_change = fpow (num_value price_change_ratio) elasticity_coef
               in (case base_demand self pid of
                     None \<Rightarrow> Inl KeyError
                   | Some d \<Rightarrow> Inr (fmul d demand_change))))"

text \<open>
  The dictionary returned by \<open>get_optimal_price\<close>; \<open>optimize_price\<close> may add the key
  \<open>demand_confidence_interval\<close> to it.
\<close>

record optimal_result =
  optimal_price :: float64
  expected_demand :: float64
  expected_revenue :: float64
  elasticity :: float64
  demand_confidence_interval :: "(float64 \<times> float64) option"

text \<open>
  \<open>scipy.optimize.minimize\<close> with method L-BFGS-B, reduced to what the caller reads:
  from the objective, the start \<open>x0\<close> and the one pair of bounds to \<open>result.x[0]\<close>, or to
  the exception it raises (for bounds with \<open>low > high\<close>, or out of the objective).
\<close>

type_synonym minimizer =
  "(float64 \<Rightarrow> error + float64) \<Rightarrow> float64 \<Rightarrow> float64 \<times> float64 \<Rightarrow> error + float64"

text \<open>\<open>get_optimal_price\<close> (lines 74-93).\<close>

definition revenue_objective ::
  "PriceElasticityModel \<Rightarrow> string \<Rightarrow> float64 \<Rightarrow> pynum \<Rightarrow> float64 \<Rightarrow> error + float64" where
  "revenue_objective self pid cost cur_price price =
     (case predict_demand self cur_price (Np price) pid of
        Inl e \<Rightarrow> Inl e
      | Inr demand \<Rightarrow> Inr (fneg (fmul (fsub price cost) demand)))"

definition get_optimal_price ::
  "minimizer \<Rightarrow> PriceElasticityModel \<Rightarrow> string \<Rightarrow> float64 \<Rightarrow> pynum \<Rightarrow> float64 \<times> float64
     \<Rightarrow> error + optimal_result" where
  "get_optimal_price minimize self pid cost cur_price price_rng =
     (case minimize (revenue_objective self pid cost cur_price) (num_value cur_price) price_rng of
        Inl e \<Rightarrow> Inl e
      | Inr opt_price \<Rightarrow>
          (case predict_demand self cur_price (Np opt_price) pid of
             Inl e \<Rightarrow> Inl e
           | Inr opt_demand \<Rightarrow>
               Inr \<lparr>optimal_price = opt_price,
                    expected_demand = opt_demand,
                    expected_revenue = fmul (fsub opt_price cost) opt_demand,
                    elasticity = (case elasticity_coefficients self pid of
                                    Some e \<Rightarrow> e | None \<Rightarrow> Fin 0),
                    demand_confidence_interval = None\<rparr>))"

subsection \<open>BayesianABTest\<close>

text \<open>
  One entry of \<open>self.results\<close>: the dictionary literal built by \<open>update_variant\<close>.
\<close>

record variant =
  alpha :: real
  beta :: real
  mean :: real
  conversions :: int
  trials :: int

text \<open>
  \<open>self.results\<close> is a Python dictionary, which keeps insertion order and, on assignment
  to an existing key, replaces the value in place: an association list under
  \<open>AList.update\<close>.
\<close>

record BayesianABTest =
  prior_alpha :: real
  prior_beta :: real
  results :: "(string \<times> variant) list"

text \<open>\<open>__init__\<close>; both prior parameters default to \<open>1.0\<close>.\<close>

definition BayesianABTest_init :: "real \<Rightarrow> real \<Rightarrow> BayesianABTest" where
  "BayesianABTest_init pa pb = \<lparr>prior_alpha = pa, prior_beta = pb, results = []\<rparr>"

text \<open>
  \<open>update_variant\<close> (lines 101-111). No argument is validated. The only failure is the
  float division of the posterior mean, which raises when \<open>alpha + beta\<close> is zero, before
  the dictionary is written.
\<close>

definition update_variant ::
  "BayesianABTest \<Rightarrow> string \<Rightarrow> int \<Rightarrow> int \<Rightarrow> error + BayesianABTest" where
  "update_variant self variant_name convs trls =
     (let posterior_alpha = prior_alpha self + of_int convs;
          posterior_beta = prior_beta self + of_int trls - of_int convs
      in if posterior_alpha + posterior_beta = 0 then Inl ZeroDivisionError
         else Inr (self\<lparr>results :=
           AList.update variant_name
             \<lparr>alpha = posterior_alpha,
              beta = posterior_beta,
              mean = posterior_alpha / (posterior_alpha + posterior_beta),
              conversions = convs,
              trials = trls\<rparr>
             (results self)\<rparr>))"

text \<open>
  \<open>np.random.beta(a, b, size)\<close>: raises \<open>ValueError\<close> unless both parameters are
  positive; the samples come from the random stream \<open>draw\<close>, one value per index.
\<close>

definition np_random_beta :: "(nat \<Rightarrow> real) \<Rightarrow> real \<Rightarrow> real \<Rightarrow> nat \<Rightarrow> error + real list" where
  "np_random_beta draw a b n =
     (if a \<le> 0 then Inl ValueError
      else if b \<le> 0 then Inl ValueError
      else Inr (map draw [0..<n]))"

text \<open>
  The dictionary \<open>samples\<close>: one array of \<open>n_samples\<close> draws per stored variant, in the
  order of \<open>self.results\<close>. \<open>stream k i\<close> is draw \<open>i\<close> of the \<open>k\<close>-th call of
  \<open>np.random.beta\<close>: the sample matrix.
\<close>

fun draw_samples ::
  "(nat \<Rightarrow> nat \<Rightarrow> real) \<Rightarrow> nat \<Rightarrow> nat \<Rightarrow> (string \<times> variant) list
     \<Rightarrow> error + (string \<times> real list) list" where
  "draw_samples stream n k [] = Inr []"
| "draw_samples stream n k ((v, params) # rest) =
     (case np_random_beta (stream k) (alpha params) (beta params) n of
        Inl e \<Rightarrow> Inl e
      | Inr xs \<Rightarrow>
          (case draw_samples stream n (Suc k) rest of
             Inl e \<Rightarrow> Inl e
           | Inr others \<Rightarrow> Inr ((v, xs) # others)))"

text \<open>The first exception of a list of results, or all their values.\<close>

fun sequence :: "(error + 'a) list \<Rightarrow> error + 'a list" where
  "sequence [] = Inr []"
| "sequence (r # rs) =
     (case r of
        Inl e \<Rightarrow> Inl e
      | Inr x \<Rightarrow> (case sequence rs of Inl e \<Rightarrow> Inl e | Inr xs \<Rightarrow> Inr (x # xs)))"

text \<open>\<open>max([samples[v][i] for v in samples.keys()])\<close>: the largest sample of draw \<open>i\<close>.\<close>

definition draw_max :: "(string \<times> real list) list \<Rightarrow> nat \<Rightarrow> error + real" where
  "draw_max samples i = py_max (map (\<lambda>(v, xs). xs ! i) samples)"

text \<open>
  \<open>get_probability_best\<close> (lines 113-127). In the sum that builds \<open>best_count\<close> the left
  operand of \<open>==\<close> is the whole array \<open>samples[variant]\<close>, not its entry \<open>i\<close>: each term
  is a Boolean array, the sum over the draws is an integer array, and the value stored
  for the variant is an array of \<open>n_samples\<close> quotients. Entry \<open>j\<close> of it counts the
  draws \<open>i\<close> whose maximum equals \<open>samples[variant][j]\<close>. With no draw the sum is the
  integer \<open>0\<close> and the division by \<open>n_samples = 0\<close> raises.
\<close>

definition get_probability_best ::
  "(nat \<Rightarrow> nat \<Rightarrow> real) \<Rightarrow> BayesianABTest \<Rightarrow> nat \<Rightarrow> error + (string \<times> real list) list" where
  "get_probability_best stream self n_samples =
     (if length (results self) < 2 then Inr []
      else case draw_samples stream n_samples 0 (results self) of
             Inl e \<Rightarrow> Inl e
           | Inr samples \<Rightarrow>
               if n_samples = 0 then Inl ZeroDivisionError
               else (case sequence (map (draw_max samples) [0..<n_samples]) of
                       Inl e \<Rightarrow> Inl e
                     | Inr maxima \<Rightarrow>
                         Inr (map (\<lambda>(variant, xs).
                                (variant,
                                 map (\<lambda>x. real (length (filter (\<lambda>m. x = m) maxima))
                                             / real n_samples) xs))
                              samples)))"

text \<open>
  \<open>calculate_expected_loss\<close> (lines 129-139). \<open>np.maximum.reduce\<close> folds the rows with the
  elementwise maximum and raises \<open>ValueError\<close> on an empty list of rows.
\<close>

definition calculate_expected_loss ::
  "(nat \<Rightarrow> nat \<Rightarrow> real) \<Rightarrow> BayesianABTest \<Rightarrow> string \<Rightarrow> nat \<Rightarrow> error + float64" where
  "calculate_expected_loss stream self variant_name n_samples =
     (if variant_name \<notin> set (map fst (results self)) then Inr (Fin 0)
      else case draw_samples stream n_samples 0 (results self) of
             Inl e \<Rightarrow> Inl e
           | Inr samples \<Rightarrow>
               (case map snd samples of
                  [] \<Rightarrow> Inl ValueError
                | row # rows \<Rightarrow>
                    let max_samples = foldl (\<lambda>acc r. map2 max acc r) row rows
                    in (case map_of samples variant_name of
                          None \<Rightarrow> Inl KeyError
                        | Some xs \<Rightarrow>
                            Inr (np_mean (map Fin (map2 (\<lambda>m x. m - x) max_samples xs))))))"

text \<open>
  The sample matrix of \<open>m\<close> variants and \<open>n\<close> draws: its rows, its entries row by row,
  and the largest sample of each draw.
\<close>

definition sample_rows :: "(nat \<Rightarrow> nat \<Rightarrow> real) \<Rightarrow> nat \<Rightarrow> nat \<Rightarrow> real list list" where
  "sample_rows stream m n = map (\<lambda>k. map (stream k) [0..<n]) [0..<m]"

definition sample_entries :: "(nat \<Rightarrow> nat \<Rightarrow> real) \<Rightarrow> nat \<Rightarrow> nat \<Rightarrow> real list" where
  "sample_entries stream m n = map (\<lambda>(k, i). stream k i) (List.product [0..<m] [0..<n])"

definition maxima_of :: "(nat \<Rightarrow> nat \<Rightarrow> real) \<Rightarrow> nat \<Rightarrow> nat \<Rightarrow> real list" where
  "maxima_of stream m n = map (\<lambda>i. Max ((\<lambda>j. stream j i) ` {..<m})) [0..<n]"

text \<open>The sum of everything \<open>get_probability_best\<close> returns, over all variants.\<close>

definition total_credit :: "(string \<times> real list) list \<Rightarrow> real" where
  "total_credit probs = sum_list (concat (map snd probs))"

text \<open>The analyzer as the engine constructs it: the default prior, no variant yet.\<close>

definition ab_default :: BayesianABTest where
  "ab_default = BayesianABTest_init 1 1"

subsection \<open>BayesianOptimizer\<close>

text \<open>
  Points are vectors of finite coordinates (uniform draws inside finite bounds);
  objective values are \<open>float64\<close>, since \<open>best_value\<close> starts at \<open>-inf\<close>.
  \<open>best_params\<close> is \<open>None\<close> until an observation beats the sentinel.
\<close>

record BayesianOptimizer =
  bounds :: "(real \<times> real) list"
  n_initial :: int
  X_sample :: "real list list"
  y_sample :: "float64 list"
  best_params :: "real list option"
  best_value :: float64

definition BayesianOptimizer_init :: "(real \<times> real) list \<Rightarrow> int \<Rightarrow> BayesianOptimizer" where
  "BayesianOptimizer_init bnds n_init =
     \<lparr>bounds = bnds, n_initial = n_init, X_sample = [], y_sample = [],
      best_params = None, best_value = NInf\<rparr>"

text \<open>\<open>update\<close> (lines 181-187).\<close>

definition update :: "BayesianOptimizer \<Rightarrow> real list \<Rightarrow> float64 \<Rightarrow> BayesianOptimizer" where
  "update self X y =
     (let self1 = self\<lparr>X_sample := X_sample self @ [X], y_sample := y_sample self @ [y]\<rparr>
      in if fgt y (best_value self1)
         then self1\<lparr>best_value := y, best_params := Some X\<rparr>
         else self1)"

text \<open>The dictionary returned by \<open>get_best_params\<close> (lines 189-194).\<close>

record best_params_dict =
  parameters :: "real list"
  dict_best_value :: float64
  n_iterations :: nat

definition get_best_params :: "BayesianOptimizer \<Rightarrow> best_params_dict" where
  "get_best_params self =
     \<lparr>parameters = (case best_params self of Some p \<Rightarrow> p | None \<Rightarrow> []),
      dict_best_value = best_value self,
      n_iterations = length (X_sample self)\<rparr>"

text \<open>A run of \<open>update\<close> calls, oldest first, on a fresh optimizer.\<close>

definition run_updates ::
  "BayesianOptimizer \<Rightarrow> (real list \<times> float64) list \<Rightarrow> BayesianOptimizer" where
  "run_updates self obs = foldl (\<lambda>s (X, y). update s X y) self obs"

text \<open>
  The invariant of a run from a fresh optimizer: the samples are the observations in
  order, the best value bounds every observed value, and either nothing has beaten the
  sentinel yet, or the best pair is the first observation that attains the best value.
\<close>

definition best_inv :: "(real list \<times> float64) list \<Rightarrow> BayesianOptimizer \<Rightarrow> bool" where
  "best_inv obs s =
     (X_sample s = map fst obs \<and> y_sample s = map snd obs
      \<and> list_all (\<lambda>y. fle y (best_value s)) (map snd obs)
      \<and> (if best_params s = None
          then best_value s = NInf
          else (\<exists>i < length obs. obs ! i = (the (best_params s), best_value s)
                 \<and> list_all (\<lambda>y. flt y (best_value s)) (take i (map snd obs)))))"

text \<open>
  \<open>scipy.stats.norm\<close>: the standard normal distribution function and density, as the
  library computes them.
\<close>

record stats_norm =
  cdf :: "float64 \<Rightarrow> float64"
  pdf :: "float64 \<Rightarrow> float64"

text \<open>
  \<open>acquisition_function\<close> (lines 150-163). The candidates \<open>X\<close> are used for their number
  only, and only when nothing has been observed.
\<close>

definition acquisition_function ::
  "stats_norm \<Rightarrow> BayesianOptimizer \<Rightarrow> real list list \<Rightarrow> float64 \<Rightarrow> error + ndarray" where
  "acquisition_function nrm self X xi =
     (if length (y_sample self) = 0 then Inr (Array (replicate (length X) (Fin 0)))
      else
        let y_array = y_sample self;
            mu = np_mean y_array;
            sigma = fadd (np_std y_array) (Fin (1 / 1000000))
        in case np_max y_array of
             Inl e \<Rightarrow> Inl e
           | Inr best_f \<Rightarrow>
               let Z = fdiv (fsub (fsub mu best_f) xi) sigma;
                   ei = fadd (fmul (fsub (fsub mu best_f) xi) (cdf nrm Z))
                             (fmul sigma (pdf nrm Z))
               in Inr (Scalar ei))"

text \<open>
  The ambient random stream as \<open>propose_location\<close> reads it: the unit-interval variates
  behind the \<open>np.random.uniform\<close> calls, which numpy scales to \<open>low + (high - low) * u\<close>.
\<close>

record uniform_stream =
  scalar_draw :: "nat \<Rightarrow> real"
  matrix_draw :: "nat \<Rightarrow> nat \<Rightarrow> real"

text \<open>The pool \<open>X_random\<close> (lines 170-174): \<open>n_random\<close> rows, one column per bound.\<close>

definition X_random_pool :: "uniform_stream \<Rightarrow> (real \<times> real) list \<Rightarrow> nat \<Rightarrow> real list list" where
  "X_random_pool rng bnds n_random =
     map (\<lambda>i. map (\<lambda>(j, b). fst b + (snd b - fst b) * matrix_draw rng i j) (enumerate 0 bnds))
       [0..<n_random]"

text \<open>\<open>propose_location\<close> (lines 165-179).\<close>

definition propose_location ::
  "stats_norm \<Rightarrow> uniform_stream \<Rightarrow> BayesianOptimizer \<Rightarrow> error + real list" where
  "propose_location nrm rng self =
     (if int (length (X_sample self)) < n_initial self
      then Inr (map (\<lambda>(k, b). fst b + (snd b - fst b) * scalar_draw rng k)
                  (enumerate 0 (bounds self)))
      else
        let n_random = 1000;
            X_random = X_random_pool rng (bounds self) n_random
        in case acquisition_function nrm self X_random (Fin (1 / 100)) of
             Inl e \<Rightarrow> Inl e
           | Inr ei_values \<Rightarrow>
               (case np_argmax ei_values of
                  Inl e \<Rightarrow> Inl e
                | Inr best_idx \<Rightarrow>
                    if best_idx < length X_random then Inr (X_random ! best_idx)
                    else Inl IndexError))"

text \<open>
  The closed-form Expected Improvement of the specification, from a mean, a standard
  deviation, the best observed value and the exploration weight.
\<close>

definition expected_improvement ::
  "stats_norm \<Rightarrow> float64 \<Rightarrow> float64 \<Rightarrow> float64 \<Rightarrow> float64 \<Rightarrow> float64" where
  "expected_improvement nrm mu sigma best_f xi =
     fadd (fmul (fsub (fsub mu best_f) xi) (cdf nrm (fdiv (fsub (fsub mu best_f) xi) sigma)))
          (fmul sigma (pdf nrm (fdiv (fsub (fsub mu best_f) xi) sigma)))"

subsection \<open>DynamicPricingEngine\<close>

record pricing_history_entry =
  timestamp :: string
  product_id :: string
  recommended_price :: float64
  current_price :: real
  inventory_level :: int

text \<open>The engine's attributes (the free-form \<open>config\<close> dictionary is never read).\<close>

record DynamicPricingEngine =
  gamma_poisson_models :: "string \<rightharpoonup> GammaPoissonMixture"
  elasticity_model :: PriceElasticityModel
  ab_test :: BayesianABTest
  optimizer :: "BayesianOptimizer option"
  pricing_history :: "pricing_history_entry list"

text \<open>
  What \<open>optimize_price\<close> takes from outside the module: the scipy minimizer, the simulated
  demand of a fitted model (\<open>predict_demand(1000)\<close>, drawn from the random stream),
  \<open>np.percentile\<close> and the clock.
\<close>

record environment =
  minimize :: minimizer
  simulate_demand :: "GammaPoissonMixture \<Rightarrow> nat \<Rightarrow> error + float64 list"
  percentile :: "float64 list \<Rightarrow> real \<Rightarrow> float64"
  now_isoformat :: string

text \<open>
  The search interval of \<open>optimize_price\<close> (lines 235-247). Prices are finite Python
  floats, inventory levels Python integers.
\<close>

definition price_range :: "real \<Rightarrow> real \<Rightarrow> real list \<Rightarrow> int \<Rightarrow> int \<Rightarrow> error + real \<times> real" where
  "price_range cur_price cost competitor_prices inv_level target_inventory =
     (case (if competitor_prices \<noteq> [] then py_min competitor_prices else Inr (cur_price * 0.8)) of
        Inl e \<Rightarrow> Inl e
      | Inr min_competitor_price \<Rightarrow>
     (case (if competitor_prices \<noteq> [] then py_max competitor_prices else Inr (cur_price * 1.2)) of
        Inl e \<Rightarrow> Inl e
      | Inr max_competitor_price \<Rightarrow>
          let inventory_factor =
                (if of_int inv_level > of_int target_inventory * (1.2::real) then 0.95
                 else if of_int inv_level < of_int target_inventory * (0.8::real) then 1.05
                 else 1.0)
          in Inr (max (cost * 1.1) (min_competitor_price * 0.95 * inventory_factor),
                  min (cur_price * 1.5) (max_competitor_price * 1.05 * inventory_factor))))"

text \<open>
  The rest of \<open>optimize_price\<close> after the optimizer returned (lines 253-268): attach the
  5th-95th percentile interval when the product has a demand model, append the history
  entry, return the result.
\<close>

definition record_recommendation ::
  "environment \<Rightarrow> DynamicPricingEngine \<Rightarrow> string \<Rightarrow> real \<Rightarrow> int \<Rightarrow> optimal_result
     \<Rightarrow> error + optimal_result \<times> DynamicPricingEngine" where
  "record_recommendation env self pid cur_price inv_level optimal =
     (case (case gamma_poisson_models self pid of
              None \<Rightarrow> Inr optimal
            | Some model \<Rightarrow>
                (case simulate_demand env model 1000 of
                   Inl e \<Rightarrow> Inl e
                 | Inr demand_prediction \<Rightarrow>
                     Inr (optimal\<lparr>demand_confidence_interval :=
                       Some (percentile env demand_prediction 5,
                             percentile env demand_prediction 95)\<rparr>))) of
        Inl e \<Rightarrow> Inl e
      | Inr optimal' \<Rightarrow>
          Inr (optimal',
               self\<lparr>pricing_history := pricing_history self @
                 [\<lparr>timestamp = now_isoformat env,
                   product_id = pid,
                   recommended_price = optimal_price optimal',
                   current_price = cur_price,
                   inventory_level = inv_level\<rparr>]\<rparr>))"

text \<open>\<open>optimize_price\<close> (lines 231-268).\<close>

definition optimize_price ::
  "environment \<Rightarrow> DynamicPricingEngine \<Rightarrow> string \<Rightarrow> real \<Rightarrow> real \<Rightarrow> real list \<Rightarrow> int \<Rightarrow> int
     \<Rightarrow> error + optimal_result \<times> DynamicPricingEngine" where
  "optimize_price env self pid cur_price cost competitor_prices inv_level target_inventory =
     (case price_range cur_price cost competitor_prices inv_level target_inventory of
        Inl e \<Rightarrow> Inl e
      | Inr (low, high) \<Rightarrow>
          (case get_optimal_price (minimize env) (elasticity_model self) pid (Fin cost)
                  (Py (Fin cur_price)) (Fin low, Fin high) of
             Inl e \<Rightarrow> Inl e
           | Inr optimal \<Rightarrow> record_recommendation env self pid cur_price inv_level optimal))"

text \<open>
  The interval of the specification: the inventory factor, and the interval from the
  lowest and highest competitor price.
\<close>

definition spec_inventory_factor :: "int \<Rightarrow> int \<Rightarrow> real" where
  "spec_inventory_factor inventory target =
     (if of_int inventory > 1.2 * (of_int target :: real) then 0.95
      else if of_int inventory < 0.8 * (of_int target :: real) then 1.05
      else 1)"

definition spec_interval :: "real \<Rightarrow> real \<Rightarrow> real \<Rightarrow> real \<Rightarrow> real \<Rightarrow> real \<times> real" where
  "spec_interval cost cur_price min_competitor max_competitor factor =
     (max (cost * 1.1) (min_competitor * 0.95 * factor),
      min (cur_price * 1.5) (max_competitor * 1.05 * factor))"

text \<open>An analyzer with two stored variants, both at the default prior.\<close>

definition ab_two_variants :: BayesianABTest where
  "ab_two_variants =
     \<lparr>prior_alpha = 1, prior_beta = 1,
      results = [(''control'', \<lparr>alpha = 1, beta = 1, mean = 1 / 2, conversions = 0, trials = 0\<rparr>),
                 (''variantA'', \<lparr>alpha = 1, beta = 1, mean = 1 / 2, conversions = 0, trials = 0\<rparr>)]\<rparr>"

text \<open>A sample matrix whose draws all tie, and one without two equal entries.\<close>

definition tie_stream :: "nat \<Rightarrow> nat \<Rightarrow> real" where
  "tie_stream k i = 1 / 2"

definition distinct_stream :: "nat \<Rightarrow> nat \<Rightarrow> real" where
  "distinct_stream k i = real (2 * i + k) / 10"

text \<open>
  A matrix without a tie in any draw, in which a sample of the second variant equals the
  maximum of a later draw.
\<close>

definition crossing_stream :: "nat \<Rightarrow> nat \<Rightarrow> real" where
  "crossing_stream k i = (if k = 0 then 1 / (2 + real i) else 1 / (4 + real i))"

text \<open>Concrete stand-ins for the library functions and the random stream, for the examples.\<close>

definition example_norm :: stats_norm where
  "example_norm = \<lparr>cdf = (\<lambda>z. Fin (1 / 2)), pdf = (\<lambda>z. Fin (1 / 4))\<rparr>"

definition example_stream :: uniform_stream where
  "example_stream = \<lparr>scalar_draw = (\<lambda>k. 1 / 2), matrix_draw = (\<lambda>i j. 1 / (2 + real i + real j))\<rparr>"

definition example_optimizer :: BayesianOptimizer where
  "example_optimizer = run_updates (BayesianOptimizer_init [(0, 10)] 2)
     [([1], Fin 5), ([2], Fin 3)]"

definition example_elasticity :: PriceElasticityModel where
  "example_elasticity =
     \<lparr>elasticity_coefficients = [''sku1'' \<mapsto> Fin (- 3 / 2)],
      base_demand = [''sku1'' \<mapsto> Fin 120]\<rparr>"

text \<open>An engine that knows no product, and a minimizer that answers the lower bound.\<close>

definition example_engine :: DynamicPricingEngine where
  "example_engine =
     \<lparr>gamma_poisson_models = Map.empty,
      elasticity_model = \<lparr>elasticity_coefficients = Map.empty, base_demand = Map.empty\<rparr>,
      ab_test = ab_default,
      optimizer = None,
      pricing_history = []\<rparr>"

definition example_environment :: environment where
  "example_environment =
     \<lparr>minimize = (\<lambda>objective x0 bnds. Inr (fst bnds)),
      simulate_demand = (\<lambda>model n. Inr []),
      percentile = (\<lambda>xs q. NaN),
      now_isoformat = ''2024-01-01T00:00:00''\<rparr>"

section \<open>Verified properties\<close>

subsection \<open>updateVariant\<close>

lemma update_variant_ok:
  assumes "prior_alpha self + prior_beta self + of_int trls \<noteq> 0"
  shows "update_variant self name convs trls =
    Inr (self\<lparr>results := AList.update name
      \<lparr>alpha = prior_alpha self + of_int convs,
       beta = prior_beta self + of_int trls - of_int convs,
       mean = (prior_alpha self + of_int convs) /
              (prior_alpha self + of_int convs + (prior_beta self + of_int trls - of_int convs)),
       conversions = convs, trials = trls\<rparr> (results self)\<rparr>)"
proof -
  have "prior_alpha self + of_int convs + (prior_beta self + of_int trls - of_int convs)
      = prior_alpha self + prior_beta self + of_int trls"
    by simp
  with assms show ?thesis
    unfolding update_variant_def Let_def by simp
qed

text \<open>
  Claim C5. With positive prior parameters and \<open>0 \<le> conversions \<le> trials\<close>,
  \<open>update_variant\<close> succeeds; afterwards the record stored under the name has
  \<open>alpha = prior_alpha + conversions\<close>, \<open>beta = prior_beta + trials - conversions\<close> and
  \<open>mean = alpha / (alpha + beta)\<close>, whatever was stored under the name before; every
  other name keeps its record; the keys keep their order, the name being appended only
  when it is new. With \<open>conversions = trials = 0\<close> the stored posterior is the prior.
\<close>

theorem update_variant_posterior:
  assumes "0 < prior_alpha self" and "0 < prior_beta self"
    and "0 \<le> convs" and "convs \<le> trls"
  shows "\<exists>self' r. update_variant self name convs trls = Inr self'
      \<and> map_of (results self') name = Some r
      \<and> alpha r = prior_alpha self + of_int convs
      \<and> beta r = prior_beta self + of_int trls - of_int convs
      \<and> mean r = alpha r / (alpha r + beta r)
      \<and> conversions r = convs \<and> trials r = trls
      \<and> (\<forall>k. k \<noteq> name \<longrightarrow> map_of (results self') k = map_of (results self) k)
      \<and> map fst (results self') =
          (if name \<in> set (map fst (results self)) then map fst (results self)
           else map fst (results self) @ [name])
      \<and> prior_alpha self' = prior_alpha self \<and> prior_beta self' = prior_beta self
      \<and> (convs = 0 \<and> trls = 0 \<longrightarrow> alpha r = prior_alpha self \<and> beta r = prior_beta self)"
proof -
  from assms have "0 \<le> trls" by simp
  then have "(0::real) \<le> of_int trls" by simp
  with assms(1,2) have nz: "prior_alpha self + prior_beta self + of_int trls \<noteq> 0"
    by linarith
  show ?thesis
    unfolding update_variant_ok [OF nz]
    by (simp add: AList.update_conv' AList.update_keys)
qed

theorem update_variant_posterior_witness:
  "\<exists>self' r. update_variant ab_default ''variantA'' 210 5000 = Inr self'
      \<and> map_of (results self') ''variantA'' = Some r
      \<and> alpha r = 211 \<and> beta r = 4791 \<and> mean r = 211 / 5002"
proof -
  have "(0::real) < prior_alpha ab_default" and "(0::real) < prior_beta ab_default"
    by (simp_all add: ab_default_def BayesianABTest_init_def)
  from update_variant_posterior [OF this, of 210 5000 "''variantA''"]
  show ?thesis
    by (auto simp: ab_default_def BayesianABTest_init_def)
qed

text \<open>
  Claim C8 as stated fails: with more conversions than trials the call succeeds and
  stores a record with a negative \<open>beta\<close>.
\<close>

theorem update_variant_unchecked_counterexample:
  "update_variant ab_default ''variantA'' 5 3 =
     Inr \<lparr>prior_alpha = 1, prior_beta = 1,
          results = [(''variantA'',
            \<lparr>alpha = 6, beta = - 1, mean = 6 / 5, conversions = 5, trials = 3\<rparr>)]\<rparr>"
  by (simp add: update_variant_def ab_default_def BayesianABTest_init_def)

text \<open>
  Claim C8, amended. With \<open>conversions > trials\<close> nothing is validated: the call stores
  the record computed by the same formulas (its \<open>beta\<close> may be zero or negative) in
  place of any earlier record, and fails only with \<open>ZeroDivisionError\<close>, exactly when
  \<open>alpha + beta = prior_alpha + prior_beta + trials\<close> is zero.
\<close>

theorem update_variant_unchecked:
  assumes "trls < convs"
  shows "update_variant self name convs trls =
    (if prior_alpha self + prior_beta self + of_int trls = 0 then Inl ZeroDivisionError
     else Inr (self\<lparr>results := AList.update name
       \<lparr>alpha = prior_alpha self + of_int convs,
        beta = prior_beta self + of_int trls - of_int convs,
        mean = (prior_alpha self + of_int convs) / (prior_alpha self + prior_beta self + of_int trls),
        conversions = convs, trials = trls\<rparr> (results self)\<rparr>))"
proof -
  have "prior_alpha self + of_int convs + (prior_beta self + of_int trls - of_int convs)
      = prior_alpha self + prior_beta self + of_int trls"
    by simp
  then show ?thesis
    unfolding update_variant_def Let_def by (simp add: add.assoc)
qed

theorem update_variant_unchecked_witness:
  "update_variant ab_default ''control'' 7 2 =
     Inr (ab_default\<lparr>results := [(''control'',
       \<lparr>alpha = 8, beta = - 4, mean = 2, conversions = 7, trials = 2\<rparr>)]\<rparr>)"
proof -
  have "(2::int) < 7" by simp
  from update_variant_unchecked [OF this, of ab_default "''control''"]
  show ?thesis
    by (simp add: ab_default_def BayesianABTest_init_def)
qed

subsection \<open>BayesianOptimizer: the running best\<close>

lemma fle_refl: "x \<noteq> NaN \<Longrightarrow> fle x x"
  by (cases x) (simp_all add: fle_def)

lemma not_flt_fle: "x \<noteq> NaN \<Longrightarrow> y \<noteq> NaN \<Longrightarrow> \<not> flt x y \<Longrightarrow> fle y x"
  by (simp add: fle_def)

lemma flt_fle: "flt x y \<Longrightarrow> fle x y"
  by (cases x; cases y) (simp_all add: fle_def)

lemma fle_flt_trans: "fle z x \<Longrightarrow> flt x y \<Longrightarrow> fle z y"
  by (cases x; cases y; cases z) (simp_all add: fle_def)

lemma flt_NInf: "x \<noteq> NaN \<Longrightarrow> x \<noteq> NInf \<Longrightarrow> flt NInf x"
  by (cases x) simp_all

lemma update_fields:
  "X_sample (update s X y) = X_sample s @ [X]"
  "y_sample (update s X y) = y_sample s @ [y]"
  "best_value (update s X y) = (if fgt y (best_value s) then y else best_value s)"
  "best_params (update s X y) = (if fgt y (best_value s) then Some X else best_params s)"
  "bounds (update s X y) = bounds s"
  "n_initial (update s X y) = n_initial s"
  by (simp_all add: update_def Let_def)

lemma run_updates_snoc: "run_updates s (obs @ [(X, y)]) = update (run_updates s obs) X y"
  by (simp add: run_updates_def)

lemma best_inv_init: "best_inv [] (BayesianOptimizer_init b k)"
  by (simp add: best_inv_def BayesianOptimizer_init_def)

lemma best_inv_update:
  assumes inv: "best_inv obs s" and y: "y \<noteq> NaN"
  shows "best_inv (obs @ [(X, y)]) (update s X y)"
proof (cases "fgt y (best_value s)")
  case True
  then have lt: "flt (best_value s) y" by (simp add: fgt_def)
  from inv have all: "list_all (\<lambda>z. fle z (best_value s)) (map snd obs)"
    by (simp add: best_inv_def)
  have all_lt: "list_all (\<lambda>z. flt z y) (map snd obs)"
  proof -
    have "flt z y" if "z \<in> set (map snd obs)" for z
    proof -
      from all that have "fle z (best_value s)" by (auto simp: list_all_iff)
      with lt show ?thesis
        by (cases z; cases y; cases "best_value s") (simp_all add: fle_def)
    qed
    then show ?thesis by (auto simp: list_all_iff)
  qed
  then have all_le: "list_all (\<lambda>z. fle z y) (map snd obs)"
    by (auto simp: list_all_iff intro: flt_fle)
  have "\<exists>i < length (obs @ [(X, y)]). (obs @ [(X, y)]) ! i = (X, y)
      \<and> list_all (\<lambda>z. flt z y) (take i (map snd (obs @ [(X, y)])))"
    using all_lt by (intro exI [of _ "length obs"]) simp
  with inv True all_le y show ?thesis
    by (simp add: best_inv_def update_fields fle_refl)
next
  case False
  then have nlt: "\<not> flt (best_value s) y" by (simp add: fgt_def)
  from inv have all: "list_all (\<lambda>z. fle z (best_value s)) (map snd obs)"
    by (simp add: best_inv_def)
  have bnn: "best_value s \<noteq> NaN"
  proof (cases "best_params s = None")
    case True
    with inv show ?thesis by (simp add: best_inv_def)
  next
    case False
    with inv obtain i where "i < length obs" and "snd (obs ! i) = best_value s"
      by (auto simp: best_inv_def)
    then have "best_value s \<in> set (map snd obs)"
      by (metis length_map nth_map nth_mem)
    with all show ?thesis by (auto simp: list_all_iff fle_def)
  qed
  from nlt y bnn have le: "fle y (best_value s)" by (simp add: fle_def)
  show ?thesis
  proof (cases "best_params s = None")
    case True
    with inv False all le show ?thesis
      by (simp add: best_inv_def update_fields)
  next
    case False
    with inv obtain i where i: "i < length obs"
      "obs ! i = (the (best_params s), best_value s)"
      "list_all (\<lambda>z. flt z (best_value s)) (take i (map snd obs))"
      by (auto simp: best_inv_def)
    then have "\<exists>j < length (obs @ [(X, y)]).
        (obs @ [(X, y)]) ! j = (the (best_params s), best_value s)
      \<and> list_all (\<lambda>z. flt z (best_value s)) (take j (map snd (obs @ [(X, y)])))"
      by (intro exI [of _ i]) (simp add: nth_append)
    with inv \<open>\<not> fgt y (best_value s)\<close> False all le show ?thesis
      by (auto simp: best_inv_def update_fields)
  qed
qed

lemma best_inv_run:
  assumes "list_all (\<lambda>y. y \<noteq> NaN) (map snd obs)"
  shows "best_inv obs (run_updates (BayesianOptimizer_init b k) obs)"
  using assms
proof (induction obs rule: rev_induct)
  case Nil
  show ?case by (simp add: run_updates_def best_inv_init)
next
  case (snoc p obs)
  obtain X y where p: "p = (X, y)" by (cases p)
  with snoc show ?case
    by (simp add: run_updates_snoc best_inv_update)
qed

lemma fle_NInf: "fle y NInf \<Longrightarrow> y = NInf"
  by (cases y) (simp_all add: fle_def)

text \<open>
  Claim C7. After any run of \<open>update\<close> calls on a fresh optimizer (objective values are
  numbers or infinities, not NaN): \<open>get_best_params\<close> reports as many iterations as there
  were updates; with no update it reports the \<open>-inf\<close> sentinel and the empty vector;
  otherwise the best value is one of the observed values and no observed value exceeds
  it, and (once a value beat the sentinel) the reported vector is that of the first
  observation attaining it. Each further \<open>update\<close> replaces the best exactly when the new
  value is strictly greater. The run \<open>(x1, 5), (x2, 3), (x3, 9)\<close> ends with best value 9
  at \<open>x3\<close>.
\<close>

theorem update_running_best:
  assumes "list_all (\<lambda>y. y \<noteq> NaN) (map snd obs)"
  shows "n_iterations (get_best_params (run_updates (BayesianOptimizer_init b k) obs)) = length obs
    \<and> (obs = [] \<longrightarrow>
         dict_best_value (get_best_params (run_updates (BayesianOptimizer_init b k) obs)) = NInf
       \<and> parameters (get_best_params (run_updates (BayesianOptimizer_init b k) obs)) = [])
    \<and> (obs \<noteq> [] \<longrightarrow>
         dict_best_value (get_best_params (run_updates (BayesianOptimizer_init b k) obs))
           \<in> set (map snd obs))
    \<and> (\<forall>y \<in> set (map snd obs).
         fle y (dict_best_value (get_best_params (run_updates (BayesianOptimizer_init b k) obs))))
    \<and> (dict_best_value (get_best_params (run_updates (BayesianOptimizer_init b k) obs)) \<noteq> NInf \<longrightarrow>
         (\<exists>i < length obs.
            obs ! i = (parameters (get_best_params (run_updates (BayesianOptimizer_init b k) obs)),
                       dict_best_value (get_best_params (run_updates (BayesianOptimizer_init b k) obs)))
          \<and> (\<forall>j < i. flt (snd (obs ! j))
                (dict_best_value (get_best_params (run_updates (BayesianOptimizer_init b k) obs))))))
    \<and> (\<forall>X y. best_value (update (run_updates (BayesianOptimizer_init b k) obs) X y) =
           (if fgt y (best_value (run_updates (BayesianOptimizer_init b k) obs)) then y
            else best_value (run_updates (BayesianOptimizer_init b k) obs))
         \<and> best_params (update (run_updates (BayesianOptimizer_init b k) obs) X y) =
           (if fgt y (best_value (run_updates (BayesianOptimizer_init b k) obs)) then Some X
            else best_params (run_updates (BayesianOptimizer_init b k) obs)))
    \<and> get_best_params (run_updates (BayesianOptimizer_init b k)
         [(x1, Fin 5), (x2, Fin 3), (x3, Fin 9)]) =
       \<lparr>parameters = x3, dict_best_value = Fin 9, n_iterations = 3\<rparr>"
proof -
  define s where "s = run_updates (BayesianOptimizer_init b k) obs"
  have inv: "best_inv obs s"
    unfolding s_def by (rule best_inv_run [OF assms])
  then have xs: "X_sample s = map fst obs"
    and all: "list_all (\<lambda>y. fle y (best_value s)) (map snd obs)"
    by (simp_all add: best_inv_def)
  have none: "best_value s = NInf" if "best_params s = None"
    using inv that by (simp add: best_inv_def)
  have some: "\<exists>i < length obs. obs ! i = (p, best_value s)
      \<and> list_all (\<lambda>y. flt y (best_value s)) (take i (map snd obs))"
    if "best_params s = Some p" for p
    using inv that by (simp add: best_inv_def)
  have c1: "n_iterations (get_best_params s) = length obs"
    by (simp add: get_best_params_def xs)
  have c2: "obs = [] \<longrightarrow> dict_best_value (get_best_params s) = NInf
      \<and> parameters (get_best_params s) = []"
    by (simp add: get_best_params_def s_def run_updates_def BayesianOptimizer_init_def)
  have c3: "obs \<noteq> [] \<longrightarrow> dict_best_value (get_best_params s) \<in> set (map snd obs)"
  proof
    assume ne: "obs \<noteq> []"
    show "dict_best_value (get_best_params s) \<in> set (map snd obs)"
    proof (cases "best_params s")
      case None
      then have b: "best_value s = NInf" by (rule none)
      from ne obtain p where p: "p \<in> set obs" by (cases obs) auto
      with all have "fle (snd p) (best_value s)" by (auto simp: list_all_iff)
      with b have "snd p = NInf" by (simp add: fle_NInf)
      with p b show ?thesis
        by (force simp: get_best_params_def)
    next
      case (Some q)
      from some [OF this] obtain i where "i < length obs" "obs ! i = (q, best_value s)"
        by blast
      then have "(q, best_value s) \<in> set obs" by (metis nth_mem)
      then show ?thesis
        by (force simp: get_best_params_def)
    qed
  qed
  have c4: "\<forall>y \<in> set (map snd obs). fle y (dict_best_value (get_best_params s))"
    using all by (simp add: get_best_params_def list_all_iff)
  have c5: "dict_best_value (get_best_params s) \<noteq> NInf \<longrightarrow>
     (\<exists>i < length obs.
        obs ! i = (parameters (get_best_params s), dict_best_value (get_best_params s))
      \<and> (\<forall>j < i. flt (snd (obs ! j)) (dict_best_value (get_best_params s))))"
  proof
    assume "dict_best_value (get_best_params s) \<noteq> NInf"
    then have "best_value s \<noteq> NInf" by (simp add: get_best_params_def)
    with none obtain q where q: "best_params s = Some q" by (cases "best_params s") auto
    from some [OF q] obtain i where i: "i < length obs" "obs ! i = (q, best_value s)"
      "list_all (\<lambda>y. flt y (best_value s)) (take i (map snd obs))"
      by blast
    have "flt (snd (obs ! j)) (best_value s)" if "j < i" for j
    proof -
      from that i(1) have "take i (map snd obs) ! j = snd (obs ! j)" by simp
      moreover from that i(1) have "j < length (take i (map snd obs))" by simp
      ultimately show ?thesis
        using i(3) by (metis list_all_length)
    qed
    with i(1,2) q show "\<exists>i < length obs.
        obs ! i = (parameters (get_best_params s), dict_best_value (get_best_params s))
      \<and> (\<forall>j < i. flt (snd (obs ! j)) (dict_best_value (get_best_params s)))"
      by (intro exI [of _ i]) (simp add: get_best_params_def)
  qed
  have c6: "\<forall>X y. best_value (update s X y) = (if fgt y (best_value s) then y else best_value s)
      \<and> best_params (update s X y) = (if fgt y (best_value s) then Some X else best_params s)"
    by (simp add: update_fields)
  have c7: "get_best_params (run_updates (BayesianOptimizer_init b k)
         [(x1, Fin 5), (x2, Fin 3), (x3, Fin 9)]) =
       \<lparr>parameters = x3, dict_best_value = Fin 9, n_iterations = 3\<rparr>"
    by (simp add: run_updates_def BayesianOptimizer_init_def update_def fgt_def
        get_best_params_def)
  from c1 c2 c3 c4 c5 c6 c7 show ?thesis
    unfolding s_def by blast
qed

theorem update_running_best_witness:
  "n_iterations (get_best_params (run_updates (BayesianOptimizer_init [(0, 1)] 5)
       [([1 / 10], Fin 5), ([2 / 10], Fin 3), ([3 / 10], Fin 9)])) = 3
   \<and> dict_best_value (get_best_params (run_updates (BayesianOptimizer_init [(0, 1)] 5)
       [([1 / 10], Fin 5), ([2 / 10], Fin 3), ([3 / 10], Fin 9)])) = Fin 9
   \<and> parameters (get_best_params (run_updates (BayesianOptimizer_init [(0, 1)] 5)
       [([1 / 10], Fin 5), ([2 / 10], Fin 3), ([3 / 10], Fin 9)])) = [3 / 10]"
proof -
  have "list_all (\<lambda>y. y \<noteq> NaN)
      (map snd [([1 / 10 :: real], Fin 5), ([2 / 10], Fin 3), ([3 / 10], Fin 9)])"
    by simp
  from update_running_best [OF this, of "[(0, 1)]" 5 "[1 / 10]" "[2 / 10]" "[3 / 10]"]
  show ?thesis by simp
qed

subsection \<open>BayesianOptimizer: acquisition and proposal\<close>

lemma np_argmax_loop_zeros: "np_argmax_loop (Fin 0) ind i (replicate n (Fin 0)) = ind"
  by (induction n arbitrary: i) (simp_all add: fle_def)

lemma np_argmax_zeros: "0 < n \<Longrightarrow> np_argmax (Array (replicate n (Fin 0))) = Inr 0"
  by (cases n) (simp_all add: np_argmax_loop_zeros)

lemma X_random_pool_length: "length (X_random_pool rng bnds n) = n"
  by (simp add: X_random_pool_def)

lemma acquisition_function_empty:
  "y_sample self = [] \<Longrightarrow>
     acquisition_function nrm self X xi = Inr (Array (replicate (length X) (Fin 0)))"
  by (simp add: acquisition_function_def)

lemma acquisition_function_scalar:
  assumes "y_sample self = y # ys"
  shows "acquisition_function nrm self X xi =
     Inr (Scalar (expected_improvement nrm (np_mean (y # ys))
       (fadd (np_std (y # ys)) (Fin (1 / 1000000))) (foldl fmaximum y ys) xi))"
  using assms by (simp add: acquisition_function_def expected_improvement_def Let_def)

lemma X_random_pool_first:
  "0 < n \<Longrightarrow> X_random_pool rng bnds n ! 0 =
     map (\<lambda>(j, b). fst b + (snd b - fst b) * matrix_draw rng 0 j) (enumerate 0 bnds)"
  by (simp add: X_random_pool_def)

lemma propose_location_first:
  assumes "n_initial self \<le> int (length (X_sample self))"
  shows "propose_location nrm rng self = Inr (X_random_pool rng (bounds self) 1000 ! 0)"
proof (cases "y_sample self")
  case Nil
  then have "acquisition_function nrm self (X_random_pool rng (bounds self) 1000) (Fin (1 / 100))
      = Inr (Array (replicate 1000 (Fin 0)))"
    by (simp add: acquisition_function_empty X_random_pool_length)
  with assms show ?thesis
    by (simp add: propose_location_def np_argmax_zeros X_random_pool_length)
next
  case (Cons y ys)
  from acquisition_function_scalar [OF this]
  obtain v where "acquisition_function nrm self (X_random_pool rng (bounds self) 1000)
      (Fin (1 / 100)) = Inr (Scalar v)"
    by blast
  with assms show ?thesis
    by (simp add: propose_location_def X_random_pool_length)
qed

text \<open>
  Claim C1. With no observation \<open>acquisition_function\<close> returns the zero vector, one
  entry per candidate. With at least one observation it returns one scalar: the
  Expected-Improvement expression of the mean of the past values, their standard
  deviation (plus the \<open>1e-6\<close> guard) and their maximum; the candidates do not enter it,
  so any two candidate sets give the same result. After warm-up \<open>propose_location\<close>
  returns row 0 of the pool of 1000 candidates.
\<close>

theorem acquisition_same_for_all_candidates:
  "(y_sample self = [] \<longrightarrow>
      acquisition_function nrm self X xi = Inr (Array (replicate (length X) (Fin 0))))
   \<and> (y_sample self \<noteq> [] \<longrightarrow>
      (\<exists>best_f. np_max (y_sample self) = Inr best_f
         \<and> acquisition_function nrm self X xi =
             Inr (Scalar (expected_improvement nrm (np_mean (y_sample self))
               (fadd (np_std (y_sample self)) (Fin (1 / 1000000))) best_f xi)))
      \<and> acquisition_function nrm self X' xi = acquisition_function nrm self X xi)
   \<and> (n_initial self \<le> int (length (X_sample self)) \<longrightarrow>
      length (X_random_pool rng (bounds self) 1000) = 1000
      \<and> propose_location nrm rng self = Inr (X_random_pool rng (bounds self) 1000 ! 0))"
proof (intro conjI impI)
  assume "y_sample self = []"
  then show "acquisition_function nrm self X xi = Inr (Array (replicate (length X) (Fin 0)))"
    by (rule acquisition_function_empty)
next
  assume "y_sample self \<noteq> []"
  then obtain y ys where ys: "y_sample self = y # ys"
    by (cases "y_sample self") auto
  show "\<exists>best_f. np_max (y_sample self) = Inr best_f
         \<and> acquisition_function nrm self X xi =
             Inr (Scalar (expected_improvement nrm (np_mean (y_sample self))
               (fadd (np_std (y_sample self)) (Fin (1 / 1000000))) best_f xi))"
    using acquisition_function_scalar [OF ys, of nrm X xi] ys by simp
  show "acquisition_function nrm self X' xi = acquisition_function nrm self X xi"
    by (simp add: acquisition_function_scalar [OF ys])
next
  show "length (X_random_pool rng (bounds self) 1000) = 1000"
    by (rule X_random_pool_length)
next
  assume "n_initial self \<le> int (length (X_sample self))"
  then show "propose_location nrm rng self = Inr (X_random_pool rng (bounds self) 1000 ! 0)"
    by (rule propose_location_first)
qed

lemma example_optimizer_fields:
  "y_sample example_optimizer = [Fin 5, Fin 3]"
  "X_sample example_optimizer = [[1], [2]]"
  "n_initial example_optimizer = 2"
  "bounds example_optimizer = [(0, 10)]"
  by (simp_all add: example_optimizer_def run_updates_def update_def
      BayesianOptimizer_init_def fgt_def)

theorem acquisition_same_for_all_candidates_witness:
  "acquisition_function example_norm example_optimizer [[1], [2], [3]] (Fin (1 / 100))
     = acquisition_function example_norm example_optimizer [[7]] (Fin (1 / 100))
   \<and> propose_location example_norm example_stream example_optimizer = Inr [5]"
proof -
  have ne: "y_sample example_optimizer \<noteq> []"
    and warm: "n_initial example_optimizer \<le> int (length (X_sample example_optimizer))"
    by (simp_all add: example_optimizer_fields)
  have first: "X_random_pool example_stream (bounds example_optimizer) 1000 ! 0 = [5]"
    by (simp add: X_random_pool_first example_optimizer_fields example_stream_def)
  from acquisition_same_for_all_candidates
    [of example_optimizer example_norm "[[7]]" "Fin (1 / 100)" "[[1], [2], [3]]" example_stream]
    ne warm first
  show ?thesis by simp
qed

subsection \<open>GammaPoissonMixture: fitting an empty history\<close>

lemma fit_iterations_nan:
  "fit_iterations (Np (Fin 0)) (Py (Fin 0)) k (Np NaN, Np NaN) = Inr (Np NaN, Np NaN)"
  by (induction k) simp_all

lemma fit_iterations_empty_default:
  "fit_iterations (Np (Fin 0)) (Py (Fin 0)) (Suc (Suc k)) (Py (Fin 2), Py (Fin 1))
     = Inr (Np NaN, Np NaN)"
  by (simp add: fit_iterations_nan)

lemma fdiv_NaN_right: "fdiv x NaN = NaN"
  by (cases x) simp_all

lemma fadd_NaN_right: "fadd x NaN = NaN"
  by (cases x) simp_all

lemma fit_iterations_beta_nan:
  "\<exists>a'. fit_iterations (Np (Fin 0)) (Py (Fin 0)) k (a, Np NaN) = Inr (a', Np NaN)"
proof (cases k)
  case 0
  then show ?thesis by simp
next
  case (Suc k')
  then show ?thesis
    by (simp add: fdiv_NaN_right fadd_NaN_right fit_iterations_nan)
qed

lemma fit_iterations_empty_any:
  "fit_iterations (Np (Fin 0)) (Py (Fin 0)) (Suc k) (a, b) = Inl ZeroDivisionError
   \<or> (\<exists>a'. fit_iterations (Np (Fin 0)) (Py (Fin 0)) (Suc k) (a, b) = Inr (a', Np NaN))"
proof (cases "truediv (Py (Fin 0)) b")
  case (Inl e)
  then have "e = ZeroDivisionError"
    by (cases b) (auto split: if_splits)
  with Inl show ?thesis by simp
next
  case (Inr t)
  obtain a1 where a1: "truediv (add a (Np (Fin 0))) (add (Py (Fin 1)) t) = Inr a1"
    by (cases a) simp_all
  have b1: "truediv (add b (Py (Fin 0))) (add a1 (Np NaN)) = Inr (Np NaN)"
    by (simp add: fdiv_NaN_right fadd_NaN_right)
  from fit_iterations_beta_nan [of k a1] Inr a1 b1 show ?thesis
    by simp
qed

text \<open>
  Claim C2 fails on the code. On an empty purchase history the freshly constructed model
  (\<open>alpha = 2.0\<close>, \<open>beta = 1.0\<close>) is neither left unchanged nor rejected: the first
  iteration divides the zero sum by the zero length and stores NaN into \<open>beta\<close>, the second
  stores NaN into \<open>alpha\<close>, and \<open>fit\<close> returns normally with both parameters NaN after the
  default 1000 iterations. From any parameters, one iteration or more on an empty history
  either raises \<open>ZeroDivisionError\<close> (a Python float \<open>beta = 0.0\<close>) or ends with
  \<open>beta\<close> NaN.
\<close>

theorem fit_empty_history_stores_nan:
  "fit_iterations (Np (Fin 0)) (Py (Fin 0)) 1 (Py (Fin 2), Py (Fin 1)) = Inr (Np (Fin 2), Np NaN)
   \<and> fit draw (GammaPoissonMixture_init 2 1) [] 1000 =
       Inr \<lparr>gp_alpha = Np NaN, gp_beta = Np NaN, lambda_samples = draw NaN NaN 10000\<rparr>
   \<and> (fit_iterations (Np (Fin 0)) (Py (Fin 0)) (Suc k) (a, b) = Inl ZeroDivisionError
      \<or> (\<exists>a'. fit_iterations (Np (Fin 0)) (Py (Fin 0)) (Suc k) (a, b) = Inr (a', Np NaN)))"
proof (intro conjI)
  show "fit_iterations (Np (Fin 0)) (Py (Fin 0)) 1 (Py (Fin 2), Py (Fin 1))
      = Inr (Np (Fin 2), Np NaN)"
    by (simp add: numeral_eq_Suc)
next
  have "(1000::nat) = Suc (Suc 998)" by simp
  then have "fit_iterations (Np (Fin 0)) (Py (Fin 0)) 1000 (Py (Fin 2), Py (Fin 1))
      = Inr (Np NaN, Np NaN)"
    by (simp only: fit_iterations_empty_default)
  then show "fit draw (GammaPoissonMixture_init 2 1) [] 1000 =
       Inr \<lparr>gp_alpha = Np NaN, gp_beta = Np NaN, lambda_samples = draw NaN NaN 10000\<rparr>"
    by (simp add: fit_def GammaPoissonMixture_init_def np_random_gamma_def int64_wrap_def)
next
  show "fit_iterations (Np (Fin 0)) (Py (Fin 0)) (Suc k) (a, b) = Inl ZeroDivisionError
      \<or> (\<exists>a'. fit_iterations (Np (Fin 0)) (Py (Fin 0)) (Suc k) (a, b) = Inr (a', Np NaN))"
    by (rule fit_iterations_empty_any)
qed

subsection \<open>PriceElasticityModel: the identity law\<close>

lemma fmul_one: "fmul d (Fin 1) = d"
  by (cases d) (simp_all add: inf_signed_def)

lemma fpow_one: "fpow (Fin 1) e = Fin 1"
  by (cases e) simp_all

lemma truediv_same:
  assumes "num_value c = Fin p" and "num_value n = Fin p" and "p \<noteq> 0"
  shows "\<exists>r. truediv n c = Inr r \<and> num_value r = Fin 1"
  using assms by (cases c; cases n) simp_all

lemma truediv_positive:
  assumes "num_value c = Fin q" and "num_value n = Fin p" and "q \<noteq> 0"
  shows "\<exists>r. truediv n c = Inr r \<and> num_value r = Fin (p / q)"
  using assms by (cases c; cases n) simp_all

text \<open>
  Claim C6. For a product with a stored elasticity and a stored base demand, and a
  finite price \<open>p > 0\<close> (given as a Python float or as a numpy scalar),
  \<open>predict_demand(p, p, product)\<close> returns the stored base demand itself; in general, for
  a current price \<open>q > 0\<close>, it returns \<open>base_demand * (p / q) ** elasticity\<close>.
\<close>

theorem predict_demand_identity:
  assumes "elasticity_coefficients self pid = Some e" and "base_demand self pid = Some d"
    and "0 < p" and "num_value c = Fin p" and "num_value n = Fin p"
  shows "predict_demand self c n pid = Inr d
    \<and> (\<forall>q c'. 0 < q \<and> num_value c' = Fin q \<longrightarrow>
          predict_demand self c' n pid = Inr (fmul d (fpow (Fin (p / q)) e)))"
proof
  from assms(3) have "p \<noteq> 0" by simp
  from truediv_same [OF assms(4,5) this]
  obtain r where "truediv n c = Inr r" "num_value r = Fin 1" by blast
  with assms(1,2) show "predict_demand self c n pid = Inr d"
    by (simp add: predict_demand_def fpow_one fmul_one)
next
  show "\<forall>q c'. 0 < q \<and> num_value c' = Fin q \<longrightarrow>
          predict_demand self c' n pid = Inr (fmul d (fpow (Fin (p / q)) e))"
  proof (intro allI impI)
    fix q c'
    assume q: "0 < q \<and> num_value c' = Fin q"
    then have "q \<noteq> 0" and c': "num_value c' = Fin q" by simp_all
    from truediv_positive [OF c' assms(5) \<open>q \<noteq> 0\<close>]
    obtain r where "truediv n c' = Inr r" "num_value r = Fin (p / q)" by blast
    with assms(1,2) show "predict_demand self c' n pid = Inr (fmul d (fpow (Fin (p / q)) e))"
      by (simp add: predict_demand_def)
  qed
qed

theorem predict_demand_identity_witness:
  "predict_demand example_elasticity (Py (Fin 20)) (Py (Fin 20)) ''sku1'' = Inr (Fin 120)"
proof -
  have "elasticity_coefficients example_elasticity ''sku1'' = Some (Fin (- 3 / 2))"
    and "base_demand example_elasticity ''sku1'' = Some (Fin 120)"
    by (simp_all add: example_elasticity_def)
  from predict_demand_identity [OF this, of 20 "Py (Fin 20)" "Py (Fin 20)"]
  show ?thesis by simp
qed

subsection \<open>DynamicPricingEngine: the search interval\<close>

lemma foldl_py_min: "foldl (\<lambda>m y. if y < m then y else m) (x::real) xs = Min (set (x # xs))"
proof (induction xs arbitrary: x)
  case Nil
  show ?case by simp
next
  case (Cons y ys)
  have "(if y < x then y else x) = min x y" by (simp add: min_def)
  then have "foldl (\<lambda>m y. if y < m then y else m) x (y # ys) = Min (set (min x y # ys))"
    using Cons.IH [of "min x y"] by simp
  also have "\<dots> = Min (set (x # y # ys))"
    by (cases "ys = []") (simp_all add: min.assoc)
  finally show ?case .
qed

lemma foldl_py_max: "foldl (\<lambda>m y. if m < y then y else m) (x::real) xs = Max (set (x # xs))"
proof (induction xs arbitrary: x)
  case Nil
  show ?case by simp
next
  case (Cons y ys)
  have "(if x < y then y else x) = max x y" by (simp add: max_def)
  then have "foldl (\<lambda>m y. if m < y then y else m) x (y # ys) = Max (set (max x y # ys))"
    using Cons.IH [of "max x y"] by simp
  also have "\<dots> = Max (set (x # y # ys))"
    by (cases "ys = []") (simp_all add: max.assoc)
  finally show ?case .
qed

lemma py_min_Min: "xs \<noteq> [] \<Longrightarrow> py_min xs = Inr (Min (set xs))"
  by (cases xs) (simp_all only: py_min.simps foldl_py_min, simp)

lemma py_max_Max: "xs \<noteq> [] \<Longrightarrow> py_max xs = Inr (Max (set xs))"
  by (cases xs) (simp_all only: py_max.simps foldl_py_max, simp)

lemma inventory_factor_spec:
  "(if of_int inv_level > of_int target * (1.2::real) then 0.95
    else if of_int inv_level < of_int target * (0.8::real) then 1.05 else 1.0)
   = spec_inventory_factor inv_level target"
  by (simp add: spec_inventory_factor_def mult.commute)

lemma price_range_competitors:
  assumes "competitor_prices \<noteq> []"
  shows "price_range cur_price cost competitor_prices inv_level target =
     Inr (spec_interval cost cur_price (Min (set competitor_prices)) (Max (set competitor_prices))
            (spec_inventory_factor inv_level target))"
  unfolding price_range_def Let_def inventory_factor_spec
  using assms by (simp add: py_min_Min py_max_Max spec_interval_def)

lemma price_range_no_competitors:
  "price_range cur_price cost [] inv_level target =
     Inr (spec_interval cost cur_price (cur_price * 0.8) (cur_price * 1.2)
            (spec_inventory_factor inv_level target))"
  unfolding price_range_def Let_def inventory_factor_spec
  by (simp add: spec_interval_def)

text \<open>
  Claim C4. With a non-empty competitor list, the interval that \<open>optimize_price\<close> computes
  and hands to \<open>get_optimal_price\<close> is the specification's interval from the lowest and
  the highest competitor price and the inventory factor.
\<close>

theorem optimize_price_interval:
  assumes "competitor_prices \<noteq> []"
  shows "price_range cur_price cost competitor_prices inv_level target =
       Inr (max (cost * 1.1)
              (Min (set competitor_prices) * 0.95 * spec_inventory_factor inv_level target),
            min (cur_price * 1.5)
              (Max (set competitor_prices) * 1.05 * spec_inventory_factor inv_level target))
    \<and> optimize_price env self pid cur_price cost competitor_prices inv_level target =
       (case get_optimal_price (minimize env) (elasticity_model self) pid (Fin cost)
               (Py (Fin cur_price))
               (Fin (max (cost * 1.1)
                  (Min (set competitor_prices) * 0.95 * spec_inventory_factor inv_level target)),
                Fin (min (cur_price * 1.5)
                  (Max (set competitor_prices) * 1.05 * spec_inventory_factor inv_level target))) of
          Inl e \<Rightarrow> Inl e
        | Inr optimal \<Rightarrow> record_recommendation env self pid cur_price inv_level optimal)"
  by (simp add: optimize_price_def price_range_competitors [OF assms] spec_interval_def)

theorem optimize_price_interval_witness:
  "price_range 100 60 [90, 110, 95] 150 100 = Inr (81.225, 109.725)
   \<and> optimize_price example_environment example_engine ''sku1'' 100 60 [90, 110, 95] 150 100 =
       Inr (\<lparr>optimal_price = Fin 81.225, expected_demand = Fin 0, expected_revenue = Fin 0,
             elasticity = Fin 0, demand_confidence_interval = None\<rparr>,
            example_engine\<lparr>pricing_history :=
              [\<lparr>timestamp = ''2024-01-01T00:00:00'', product_id = ''sku1'',
                recommended_price = Fin 81.225, current_price = 100,
                inventory_level = 150\<rparr>]\<rparr>)"
proof -
  have ne: "[90, 110, 95 :: real] \<noteq> []" by simp
  have f: "spec_inventory_factor 150 100 = 0.95"
    by (simp add: spec_inventory_factor_def)
  from optimize_price_interval [OF ne, of 100 60 150 100 example_environment example_engine "''sku1''"]
  show ?thesis
    by (simp add: f get_optimal_price_def predict_demand_def record_recommendation_def
        example_environment_def example_engine_def fsub_def)
qed

text \<open>
  Claim C10. With an empty competitor list the lowest competitor price is taken to be
  \<open>0.8\<close> times the current price and the highest \<open>1.2\<close> times it, and the interval is
  derived from these two as in the non-empty case.
\<close>

theorem optimize_price_no_competitors:
  "price_range cur_price cost [] inv_level target =
       Inr (max (cost * 1.1) (cur_price * 0.8 * 0.95 * spec_inventory_factor inv_level target),
            min (cur_price * 1.5) (cur_price * 1.2 * 1.05 * spec_inventory_factor inv_level target))
    \<and> optimize_price env self pid cur_price cost [] inv_level target =
       (case get_optimal_price (minimize env) (elasticity_model self) pid (Fin cost)
               (Py (Fin cur_price))
               (Fin (max (cost * 1.1)
                  (cur_price * 0.8 * 0.95 * spec_inventory_factor inv_level target)),
                Fin (min (cur_price * 1.5)
                  (cur_price * 1.2 * 1.05 * spec_inventory_factor inv_level target))) of
          Inl e \<Rightarrow> Inl e
        | Inr optimal \<Rightarrow> record_recommendation env self pid cur_price inv_level optimal)"
  by (simp add: optimize_price_def price_range_no_competitors spec_interval_def)

theorem optimize_price_no_competitors_witness:
  "price_range 100 60 [] 50 100 = Inr (79.8, 132.3)
   \<and> optimize_price example_environment example_engine ''sku1'' 100 60 [] 50 100 =
       Inr (\<lparr>optimal_price = Fin 79.8, expected_demand = Fin 0, expected_revenue = Fin 0,
             elasticity = Fin 0, demand_confidence_interval = None\<rparr>,
            example_engine\<lparr>pricing_history :=
              [\<lparr>timestamp = ''2024-01-01T00:00:00'', product_id = ''sku1'',
                recommended_price = Fin 79.8, current_price = 100,
                inventory_level = 50\<rparr>]\<rparr>)"
proof -
  have f: "spec_inventory_factor 50 100 = 1.05"
    by (simp add: spec_inventory_factor_def)
  from optimize_price_no_competitors [of 100 60 50 100 example_environment example_engine "''sku1''"]
  show ?thesis
    by (simp add: f get_optimal_price_def predict_demand_def record_recommendation_def
        example_environment_def example_engine_def fsub_def)
qed

subsection \<open>BayesianABTest: sampling\<close>

lemma draw_samples_ok:
  assumes "\<forall>(v, p) \<in> set rs. 0 < alpha p \<and> 0 < beta p"
  shows "draw_samples stream n k rs =
     Inr (map (\<lambda>(j, vp). (fst vp, map (stream j) [0..<n])) (enumerate k rs))"
  using assms
proof (induction rs arbitrary: k)
  case Nil
  show ?case by simp
next
  case (Cons r rs)
  obtain v p where r: "r = (v, p)" by (cases r)
  from Cons.prems r have p: "0 < alpha p" "0 < beta p"
    and rest: "\<forall>(v, p) \<in> set rs. 0 < alpha p \<and> 0 < beta p"
    by auto
  with Cons.IH [OF rest, of "Suc k"] p r show ?case
    by (simp add: np_random_beta_def)
qed

lemma sequence_Inr: "sequence (map (\<lambda>i. Inr (f i)) xs) = Inr (map f xs)"
  by (induction xs) simp_all

lemma samples_snd:
  "map snd (map (\<lambda>(j, vp). (fst vp, map (stream j) [0..<n])) (enumerate 0 rs))
     = sample_rows stream (length rs) n"
  unfolding sample_rows_def by (rule nth_equalityI) (simp_all add: nth_enumerate_eq)

lemma samples_fst:
  "map fst (map (\<lambda>(j, vp). (fst vp, map (stream j) [0..<n])) (enumerate 0 rs))
     = map fst rs"
  by (rule nth_equalityI) (simp_all add: nth_enumerate_eq)

lemma samples_nth:
  "k < length rs \<Longrightarrow>
   map (\<lambda>(j, vp). (fst vp, map (stream j) [0..<n])) (enumerate 0 rs) ! k
     = (fst (rs ! k), map (stream k) [0..<n])"
  by (simp add: nth_enumerate_eq)

lemma concat_sample_rows: "concat (sample_rows stream m n) = sample_entries stream m n"
  by (simp add: sample_rows_def sample_entries_def product_concat_map map_concat comp_def)

lemma draw_max_ok:
  assumes "i < n" and "rs \<noteq> []"
  shows "draw_max (map (\<lambda>(j, vp). (fst vp, map (stream j) [0..<n])) (enumerate 0 rs)) i
    = Inr (Max ((\<lambda>j. stream j i) ` {..<length rs}))"
proof -
  have "map (\<lambda>(v, xs). xs ! i) (map (\<lambda>(j, vp). (fst vp, map (stream j) [0..<n])) (enumerate 0 rs))
      = map (\<lambda>j. stream j i) [0..<length rs]"
    using assms(1) by (intro nth_equalityI) (simp_all add: nth_enumerate_eq)
  moreover have "map (\<lambda>j. stream j i) [0..<length rs] \<noteq> []"
    using assms(2) by simp
  then have "py_max (map (\<lambda>j. stream j i) [0..<length rs])
      = Inr (Max (set (map (\<lambda>j. stream j i) [0..<length rs])))"
    by (rule py_max_Max)
  moreover have "set (map (\<lambda>j. stream j i) [0..<length rs]) = (\<lambda>j. stream j i) ` {..<length rs}"
    by (simp add: lessThan_atLeast0)
  ultimately show ?thesis
    unfolding draw_max_def by simp
qed

lemma maxima_ok:
  assumes "rs \<noteq> []"
  shows "sequence (map (draw_max (map (\<lambda>(j, vp). (fst vp, map (stream j) [0..<n])) (enumerate 0 rs)))
            [0..<n])
    = Inr (maxima_of stream (length rs) n)"
proof -
  have "map (draw_max (map (\<lambda>(j, vp). (fst vp, map (stream j) [0..<n])) (enumerate 0 rs))) [0..<n]
      = map (\<lambda>i. Inr (Max ((\<lambda>j. stream j i) ` {..<length rs}))) [0..<n]"
    using assms by (intro map_cong refl) (simp add: draw_max_ok)
  then show ?thesis
    by (simp only: sequence_Inr maxima_of_def)
qed

lemma maxima_subset:
  assumes "0 < m"
  shows "set (maxima_of stream m n) \<subseteq> set (concat (sample_rows stream m n))"
proof
  fix x
  assume "x \<in> set (maxima_of stream m n)"
  then obtain i where i: "i < n" and x: "x = Max ((\<lambda>j. stream j i) ` {..<m})"
    by (auto simp: maxima_of_def)
  have "Max ((\<lambda>j. stream j i) ` {..<m}) \<in> (\<lambda>j. stream j i) ` {..<m}"
    using assms by (intro Max_in) auto
  then obtain j where "j < m" and "x = stream j i"
    using x by auto
  with i show "x \<in> set (concat (sample_rows stream m n))"
    by (force simp: sample_rows_def)
qed

text \<open>
  Counting, for every entry of the matrix, the draws whose maximum it equals counts every
  draw exactly once when no two entries are equal.
\<close>

lemma credits_total:
  assumes d: "distinct (sample_entries stream m n)" and m: "0 < m" and n: "0 < n"
  shows "sum_list (map (\<lambda>x. real (length (filter (\<lambda>mx. x = mx) (maxima_of stream m n))) / real n)
           (concat (sample_rows stream m n))) = 1"
proof -
  let ?E = "concat (sample_rows stream m n)"
  let ?M = "maxima_of stream m n"
  from d have dE: "distinct ?E" by (simp only: concat_sample_rows)
  have cnt: "length (filter (\<lambda>mx. x = mx) ?M) = count_list ?M x" for x
    by (simp add: count_list_eq_length_filter)
  have "sum_list (map (\<lambda>x. real (count_list ?M x) / real n) ?E)
      = (\<Sum>x\<in>set ?E. real (count_list ?M x) / real n)"
    using dE by (rule sum_list_distinct_conv_sum_set)
  also have "\<dots> = real (\<Sum>x\<in>set ?E. count_list ?M x) / real n"
    by (simp add: sum_divide_distrib)
  also have "(\<Sum>x\<in>set ?E. count_list ?M x) = length ?M"
    using maxima_subset [OF m] by (intro sum_count_set) auto
  also have "length ?M = n"
    by (simp add: maxima_of_def)
  finally show ?thesis
    using n by (simp add: cnt)
qed

lemma unique_maximum:
  assumes d: "distinct (sample_entries stream m n)" and m: "0 < m" and i: "i < n"
  shows "\<exists>!k. k < m \<and> stream k i = Max ((\<lambda>j. stream j i) ` {..<m})"
proof -
  from d have inj: "inj_on (\<lambda>(k, i). stream k i) ({0..<m} \<times> {0..<n})"
    by (simp add: sample_entries_def distinct_map)
  have "Max ((\<lambda>j. stream j i) ` {..<m}) \<in> (\<lambda>j. stream j i) ` {..<m}"
    using m by (intro Max_in) auto
  then obtain k where k: "k < m" "stream k i = Max ((\<lambda>j. stream j i) ` {..<m})"
    by auto
  have "k' = k" if "k' < m" and "stream k' i = Max ((\<lambda>j. stream j i) ` {..<m})" for k'
  proof -
    from that k have "(\<lambda>(k, i). stream k i) (k', i) = (\<lambda>(k, i). stream k i) (k, i)"
      by simp
    moreover from that k i have "(k', i) \<in> {0..<m} \<times> {0..<n}" "(k, i) \<in> {0..<m} \<times> {0..<n}"
      by simp_all
    ultimately have "(k', i) = (k, i)"
      using inj by (meson inj_onD)
    then show ?thesis by simp
  qed
  with k show ?thesis by blast
qed

subsection \<open>getProbabilityBest\<close>

lemma count_maxima:
  "length (filter (\<lambda>mx. x = mx) (maxima_of stream m n))
     = length (filter (\<lambda>i. x = Max ((\<lambda>k. stream k i) ` {..<m})) [0..<n])"
  by (simp add: maxima_of_def filter_map comp_def)

text \<open>
  Claim C3 fails on the code. In \<open>best_count\<close> (line 123) the left operand of \<open>==\<close> is
  the whole array \<open>samples[variant]\<close> where \<open>samples[variant][i]\<close> is meant. For at least
  two variants (of positive Beta parameters), at least one draw and any sample matrix, the
  value returned for the \<open>k\<close>-th variant is therefore not a number but an array of
  \<open>n_samples\<close> quotients: entry \<open>j\<close> is the number of draws \<open>i\<close>, of all draws, whose
  maximum over the variants equals the variant's sample \<open>j\<close>, divided by \<open>n_samples\<close>.
  So a sample is credited once for every draw whose maximum it equals, its own draw or
  another, and every variant that ties for a maximum is credited.
\<close>

theorem get_probability_best_entries:
  assumes two: "2 \<le> length (results self)"
    and valid: "\<forall>(v, p) \<in> set (results self). 0 < alpha p \<and> 0 < beta p"
    and n: "0 < n"
  shows "get_probability_best stream self n =
     Inr (map (\<lambda>(k, vp). (fst vp,
            map (\<lambda>j. real (length (filter
                    (\<lambda>i. stream k j = Max ((\<lambda>k'. stream k' i) ` {..<length (results self)}))
                    [0..<n])) / real n)
              [0..<n]))
          (enumerate 0 (results self)))"
proof -
  let ?S = "map (\<lambda>(j, vp). (fst vp, map (stream j) [0..<n])) (enumerate 0 (results self))"
  let ?M = "maxima_of stream (length (results self)) n"
  let ?P = "map (\<lambda>(variant, xs).
      (variant, map (\<lambda>x. real (length (filter (\<lambda>m. x = m) ?M)) / real n) xs)) ?S"
  from two have ne: "results self \<noteq> []" by auto
  have gp: "get_probability_best stream self n = Inr ?P"
    using two n by (simp add: get_probability_best_def draw_samples_ok [OF valid] maxima_ok [OF ne])
  have "?P = map (\<lambda>(k, vp). (fst vp,
            map (\<lambda>j. real (length (filter
                    (\<lambda>i. stream k j = Max ((\<lambda>k'. stream k' i) ` {..<length (results self)}))
                    [0..<n])) / real n)
              [0..<n]))
          (enumerate 0 (results self))"
    by (rule nth_equalityI) (simp_all add: nth_enumerate_eq count_maxima)
  with gp show ?thesis by simp
qed

text \<open>
  The failing input: three draws without a tie in any of them. The first variant wins
  every draw; the second wins none, yet its first sample \<open>1/4\<close> equals the maximum of the
  third draw and is credited. The two returned values are arrays and sum to \<open>4/3\<close>.
\<close>

theorem get_probability_best_entries_witness:
  "get_probability_best crossing_stream ab_two_variants 3 =
     Inr [(''control'', [1 / 3, 1 / 3, 1 / 3]), (''variantA'', [1 / 3, 0, 0])]
   \<and> total_credit [(''control'', [1 / 3, 1 / 3, 1 / 3]), (''variantA'', [1 / 3, 0, 0])] = 4 / 3"
proof -
  have two: "2 \<le> length (results ab_two_variants)"
    and valid: "\<forall>(v, p) \<in> set (results ab_two_variants). 0 < alpha p \<and> 0 < beta p"
    by (simp_all add: ab_two_variants_def)
  have n: "(0::nat) < 3" by simp
  have ev: "get_probability_best crossing_stream ab_two_variants 3 =
     Inr [(''control'', [1 / 3, 1 / 3, 1 / 3]), (''variantA'', [1 / 3, 0, 0])]"
    by (simp add: get_probability_best_def ab_two_variants_def np_random_beta_def draw_max_def
        crossing_stream_def numeral_3_eq_3)
  have tot: "total_credit [(''control'', [1 / 3, 1 / 3, 1 / 3]), (''variantA'', [1 / 3, 0, 0])]
      = 4 / 3"
    by (simp add: total_credit_def)
  from get_probability_best_entries [OF two valid n, of crossing_stream] ev tot
  show ?thesis by (simp only: simp_thms)
qed

text \<open>
  Ties are not broken either: when the two variants draw the same value in the only
  draw, both are credited with it and the returned values sum to 2.
\<close>

lemma get_probability_best_tie:
  "get_probability_best tie_stream ab_two_variants 1 =
       Inr [(''control'', [1]), (''variantA'', [1])]
   \<and> total_credit [(''control'', [1]), (''variantA'', [1])] = 2"
  by (simp add: get_probability_best_def ab_two_variants_def np_random_beta_def draw_max_def
      tie_stream_def total_credit_def)

text \<open>
  Where the code and the claim agree: when no two entries of the sample matrix are
  equal, exactly one variant attains the maximum of each draw and everything returned
  sums to exactly 1.
\<close>

lemma get_probability_best_total:
  assumes two: "2 \<le> length (results self)"
    and valid: "\<forall>(v, p) \<in> set (results self). 0 < alpha p \<and> 0 < beta p"
    and n: "0 < n"
    and d: "distinct (sample_entries stream (length (results self)) n)"
  shows "\<exists>probs. get_probability_best stream self n = Inr probs
      \<and> map fst probs = map fst (results self)
      \<and> (\<forall>i < n. \<exists>!k. k < length (results self)
            \<and> stream k i = Max ((\<lambda>j. stream j i) ` {..<length (results self)}))
      \<and> total_credit probs = 1"
proof -
  let ?S = "map (\<lambda>(j, vp). (fst vp, map (stream j) [0..<n])) (enumerate 0 (results self))"
  let ?M = "maxima_of stream (length (results self)) n"
  let ?P = "map (\<lambda>(variant, xs).
      (variant, map (\<lambda>x. real (length (filter (\<lambda>m. x = m) ?M)) / real n) xs)) ?S"
  from two have ne: "results self \<noteq> []" and m: "0 < length (results self)" by auto
  have gp: "get_probability_best stream self n = Inr ?P"
    using two n by (simp add: get_probability_best_def draw_samples_ok [OF valid] maxima_ok [OF ne])
  have keys: "map fst ?P = map fst (results self)"
    by (rule nth_equalityI) (simp_all add: nth_enumerate_eq)
  have "map snd ?P = map (map (\<lambda>x. real (length (filter (\<lambda>m. x = m) ?M)) / real n)) (map snd ?S)"
    by (rule nth_equalityI) (simp_all add: nth_enumerate_eq)
  then have "concat (map snd ?P) =
      map (\<lambda>x. real (length (filter (\<lambda>m. x = m) ?M)) / real n)
        (concat (sample_rows stream (length (results self)) n))"
    by (simp only: samples_snd map_concat)
  then have total: "total_credit ?P = 1"
    unfolding total_credit_def by (simp only: credits_total [OF d m n])
  have uniq: "\<forall>i < n. \<exists>!k. k < length (results self)
            \<and> stream k i = Max ((\<lambda>j. stream j i) ` {..<length (results self)})"
    using unique_maximum [OF d m] by blast
  from gp keys uniq total show ?thesis by blast
qed

subsection \<open>calculateExpectedLoss\<close>

lemma np_sum_Fin_aux: "foldl fadd (Fin a) (map Fin xs) = Fin (a + sum_list xs)"
  by (induction xs arbitrary: a) (simp_all add: add.assoc)

lemma np_mean_Fin: "xs \<noteq> [] \<Longrightarrow> np_mean (map Fin xs) = Fin (sum_list xs / real (length xs))"
  by (simp add: np_mean_def np_sum_def np_sum_Fin_aux)

lemma map2_upt: "map2 f (map g [0..<n]) (map h [0..<n]) = map (\<lambda>i. f (g i) (h i)) [0..<n]"
  by (rule nth_equalityI) simp_all

lemma foldl_rows_max:
  "foldl (\<lambda>acc r. map2 max acc r) (map g [0..<n]) (map (\<lambda>k. map (stream k) [0..<n]) ks)
     = map (\<lambda>i. foldl max (g i) (map (\<lambda>k. stream k i) ks)) [0..<n]"
proof (induction ks arbitrary: g)
  case Nil
  show ?case by simp
next
  case (Cons k ks)
  have "map2 max (map g [0..<n]) (map (stream k) [0..<n]) = map (\<lambda>i. max (g i) (stream k i)) [0..<n]"
    by (rule map2_upt)
  with Cons.IH [of "\<lambda>i. max (g i) (stream k i)"] show ?case by simp
qed

lemma foldl_max_Max: "foldl max (x::real) xs = Max (set (x # xs))"
proof -
  have "(\<lambda>y s. max s y) = (max :: real \<Rightarrow> real \<Rightarrow> real)"
    by (intro ext) (simp add: max.commute)
  then show ?thesis
    by (simp only: Max.set_eq_fold foldl_conv_fold)
qed

lemma max_samples_rows:
  assumes "0 < m" and rr: "sample_rows stream m n = row # rows"
  shows "foldl (\<lambda>acc r. map2 max acc r) row rows = maxima_of stream m n"
proof -
  have upt: "[0..<m] = 0 # [1..<m]"
    using assms(1) by (simp add: upt_conv_Cons)
  from rr have row: "row = map (stream 0) [0..<n]"
    and rows: "rows = map (\<lambda>k. map (stream k) [0..<n]) [1..<m]"
    by (simp_all add: sample_rows_def upt)
  have "foldl (\<lambda>acc r. map2 max acc r) row rows
      = map (\<lambda>i. foldl max (stream 0 i) (map (\<lambda>k. stream k i) [1..<m])) [0..<n]"
    unfolding row rows by (rule foldl_rows_max)
  also have "\<dots> = map (\<lambda>i. Max (set (map (\<lambda>k. stream k i) [0..<m]))) [0..<n]"
    by (simp add: foldl_max_Max upt)
  also have "\<dots> = maxima_of stream m n"
    by (simp add: maxima_of_def lessThan_atLeast0)
  finally show ?thesis .
qed

lemma expected_loss_known:
  assumes dist: "distinct (map fst (results self))"
    and valid: "\<forall>(v, p) \<in> set (results self). 0 < alpha p \<and> 0 < beta p"
    and k: "k < length (results self)" and n: "0 < n"
  shows "calculate_expected_loss stream self (fst (results self ! k)) n =
     Inr (Fin ((\<Sum>i<n. Max ((\<lambda>j. stream j i) ` {..<length (results self)}) - stream k i)
                / real n))"
proof -
  let ?rs = "results self"
  let ?S = "map (\<lambda>(j, vp). (fst vp, map (stream j) [0..<n])) (enumerate 0 ?rs)"
  let ?m = "length ?rs"
  from k have m: "0 < ?m" by auto
  have mem: "fst (?rs ! k) \<in> set (map fst ?rs)"
    using k by (metis length_map nth_map nth_mem)
  have rows: "map snd ?S = sample_rows stream ?m n"
    by (rule samples_snd)
  obtain row rows' where rr: "sample_rows stream ?m n = row # rows'"
    using m by (cases "sample_rows stream ?m n") (auto simp: sample_rows_def)
  have mx: "foldl (\<lambda>acc r. map2 max acc r) row rows' = maxima_of stream ?m n"
    using max_samples_rows [OF m rr] .
  have "distinct (map fst ?S)"
    using dist by (simp only: samples_fst)
  moreover have "(fst (?rs ! k), map (stream k) [0..<n]) \<in> set ?S"
  proof -
    have "?S ! k = (fst (?rs ! k), map (stream k) [0..<n])"
      using k by (rule samples_nth)
    moreover have "k < length ?S" using k by simp
    ultimately show ?thesis by (metis nth_mem)
  qed
  ultimately have look: "map_of ?S (fst (?rs ! k)) = Some (map (stream k) [0..<n])"
    by (simp only: map_of_eq_Some_iff)
  have diff: "map2 (\<lambda>m x. m - x) (maxima_of stream ?m n) (map (stream k) [0..<n])
      = map (\<lambda>i. Max ((\<lambda>j. stream j i) ` {..<?m}) - stream k i) [0..<n]"
    unfolding maxima_of_def by (rule map2_upt)
  have ne: "map (\<lambda>i. Max ((\<lambda>j. stream j i) ` {..<?m}) - stream k i) [0..<n] \<noteq> []"
    using n by simp
  have sum: "sum_list (map (\<lambda>i. Max ((\<lambda>j. stream j i) ` {..<?m}) - stream k i) [0..<n])
      = (\<Sum>i<n. Max ((\<lambda>j. stream j i) ` {..<?m}) - stream k i)"
    by (simp add: interv_sum_list_conv_sum_set_nat lessThan_atLeast0)
  have "calculate_expected_loss stream self (fst (?rs ! k)) n =
      Inr (np_mean (map Fin (map (\<lambda>i. Max ((\<lambda>j. stream j i) ` {..<?m}) - stream k i) [0..<n])))"
    using mem unfolding calculate_expected_loss_def draw_samples_ok [OF valid]
    by (simp add: rows rr mx look diff del: map_map)
  then show ?thesis
    by (simp only: np_mean_Fin [OF ne] sum) simp
qed

text \<open>
  Claim C9. For a name without a stored record the expected loss is exactly \<open>0.0\<close>. For
  the \<open>k\<close>-th stored variant (positive Beta parameters throughout, at least one draw) and
  any sample matrix, it is the mean over the draws of the largest sample of the draw
  minus the variant's own sample of the draw.
\<close>

theorem calculate_expected_loss_mean:
  "(variant \<notin> set (map fst (results self)) \<longrightarrow>
      calculate_expected_loss stream self variant n = Inr (Fin 0))
   \<and> (distinct (map fst (results self))
      \<and> (\<forall>(v, p) \<in> set (results self). 0 < alpha p \<and> 0 < beta p)
      \<and> k < length (results self) \<and> 0 < n \<longrightarrow>
      calculate_expected_loss stream self (fst (results self ! k)) n =
        Inr (Fin ((\<Sum>i<n. Max ((\<lambda>j. stream j i) ` {..<length (results self)}) - stream k i)
                   / real n)))"
proof (intro conjI impI)
  assume "variant \<notin> set (map fst (results self))"
  then show "calculate_expected_loss stream self variant n = Inr (Fin 0)"
    by (simp add: calculate_expected_loss_def)
next
  assume "distinct (map fst (results self))
      \<and> (\<forall>(v, p) \<in> set (results self). 0 < alpha p \<and> 0 < beta p)
      \<and> k < length (results self) \<and> 0 < n"
  then show "calculate_expected_loss stream self (fst (results self ! k)) n =
        Inr (Fin ((\<Sum>i<n. Max ((\<lambda>j. stream j i) ` {..<length (results self)}) - stream k i)
                   / real n))"
    by (intro expected_loss_known) simp_all
qed

theorem calculate_expected_loss_mean_witness:
  "calculate_expected_loss distinct_stream ab_two_variants ''variantB'' 3 = Inr (Fin 0)
   \<and> calculate_expected_loss distinct_stream ab_two_variants ''control'' 3 = Inr (Fin (1 / 10))"
proof -
  have unknown: "''variantB'' \<notin> set (map fst (results ab_two_variants))"
    and known: "distinct (map fst (results ab_two_variants))
      \<and> (\<forall>(v, p) \<in> set (results ab_two_variants). 0 < alpha p \<and> 0 < beta p)
      \<and> 0 < length (results ab_two_variants) \<and> (0::nat) < 3"
    and name: "fst (results ab_two_variants ! 0) = ''control''"
    and len: "length (results ab_two_variants) = 2"
    by (simp_all add: ab_two_variants_def)
  have two: "{..<2::nat} = {0, 1}" by auto
  have three: "{..<3::nat} = {0, 1, 2}" by auto
  from calculate_expected_loss_mean [of "''variantB''" ab_two_variants distinct_stream 3 0]
    unknown known
  show ?thesis
    by (simp add: name len two three distinct_stream_def)
qed

end
